theory Spec2Isabelle
  imports Complex_Main
begin

section \<open>Conventions\<close>

text \<open>
  The trading core computes on Python floats; the embedding computes on exact rationals
  (\<^typ>\<open>rat\<close>), so every statement below is about the arithmetic the code writes down,
  not about binary rounding. Dates are day ordinals, timestamps are microseconds. Values
  that the code draws from its environment (\<open>date.today()\<close>, \<open>datetime.utcnow()\<close>,
  \<open>uuid.uuid4()\<close>, the exchange's answer) are arguments of the modelled functions.
  Log lines are not modelled. A formatted message is kept as a constructor carrying the
  values the f-string interpolates.
\<close>

type_synonym date = int
type_synonym timestamp = int

subsection \<open>Python helpers\<close>

text \<open>\<open>round(x, 2)\<close>: two decimals, ties to the even neighbour.\<close>

definition py_round2 :: "rat \<Rightarrow> rat" where
  "py_round2 x =
     (let y = x * 100; f = \<lfloor>y\<rfloor>; d = y - of_int f
      in (if d < 1 / 2 then of_int f
          else if 1 / 2 < d then of_int (f + 1)
          else if even f then of_int f else of_int (f + 1)) / 100)"

text \<open>A \<open>dict\<close> in insertion order: an association list with one entry per key.\<close>

fun dict_set :: "'k \<Rightarrow> 'v \<Rightarrow> ('k \<times> 'v) list \<Rightarrow> ('k \<times> 'v) list" where
  "dict_set k v [] = [(k, v)]"
| "dict_set k v ((k', v') # d) =
     (if k = k' then (k, v) # d else (k', v') # dict_set k v d)"

definition dict_get :: "('k \<times> 'v) list \<Rightarrow> 'k \<Rightarrow> 'v \<Rightarrow> 'v" where
  "dict_get d k dflt = (case map_of d k of None \<Rightarrow> dflt | Some v \<Rightarrow> v)"

definition dict_del :: "'k \<Rightarrow> ('k \<times> 'v) list \<Rightarrow> ('k \<times> 'v) list" where
  "dict_del k d = filter (\<lambda>kv. fst kv \<noteq> k) d"

section \<open>Data model (core.models, as the core uses it)\<close>

text \<open>
  Modelled from the spec: the module \<open>core/models.py\<close>, which declares the data classes
  and enumerations, is not among the sources. The records and datatypes of this section
  and of the section on contests, events, markets, orders and trades take their fields
  from the data model of the specification and from the constructor calls and attribute
  reads of the core and its tests.
\<close>

datatype order_side = BUY | SELL

datatype value_reason =
    PriceTooHigh rat rat
  | ValueFound rat rat
  | PriceBelow50 rat
  | NoClearValue rat

datatype liquidity_reason = InsufficientLiquidity rat rat | LiquidityOK rat

datatype time_reason = NotEnoughTime int int | TimeRemainingOK int

datatype intent_reason =
    UnderdogScored string "rat option" value_reason liquidity_reason time_reason
  | ClosePosition string
  | GivenReason string

record order_intent =
  oi_id :: string
  oi_match_id :: int
  oi_market_id :: string
  oi_exchange :: string
  oi_side :: order_side
  oi_outcome :: string
  oi_size :: rat
  oi_limit_price :: rat
  oi_reason :: intent_reason
  oi_goal_event_id :: string

datatype position_status = OPEN | CLOSED

record position =
  pos_id :: string
  pos_match_id :: int
  pos_market_id :: string
  pos_exchange :: string
  pos_outcome :: string
  pos_size :: rat
  pos_entry_price :: rat
  pos_current_price :: rat
  pos_unrealized_pnl :: rat
  pos_realized_pnl :: rat
  pos_status :: position_status
  pos_opened_at :: timestamp
  pos_closed_at :: "timestamp option"
  pos_entry_order_id :: string
  pos_exit_order_id :: "string option"

record risk_status =
  rs_daily_pnl :: rat
  rs_daily_loss_limit :: rat
  rs_daily_loss_remaining :: rat
  rs_current_exposure :: rat
  rs_max_exposure :: rat
  rs_consecutive_errors :: int
  rs_circuit_breaker_active :: bool
  rs_last_error :: "string option"

section \<open>Risk manager (core/risk\_manager.py)\<close>

record risk_manager =
  bankroll :: rat
  max_per_trade_pct :: rat
  daily_loss_limit :: rat
  per_match_max_exposure :: rat
  max_consecutive_errors :: int
  daily_pnl :: rat
  current_date :: date
  match_exposure :: "(int \<times> rat) list"
  consecutive_errors :: int
  circuit_breaker_active :: bool
  last_error :: "string option"
  rm_open_positions :: "position list"

datatype risk_reason =
    CircuitBreakerActive int
  | DailyLossLimitReached rat
  | PerMatchExposureLimitReached rat
  | PositionSizeTooSmall rat
  | TradeAllowed
  | ApprovedWithSize rat

definition reset_daily_if_needed :: "date \<Rightarrow> risk_manager \<Rightarrow> risk_manager" where
  "reset_daily_if_needed today s =
     (if today \<noteq> current_date s
      then s\<lparr>daily_pnl := 0, current_date := today, match_exposure := []\<rparr>
      else s)"

definition get_status :: "date \<Rightarrow> risk_manager \<Rightarrow> risk_status \<times> risk_manager" where
  "get_status today s0 =
     (let s = reset_daily_if_needed today s0;
          total_exposure = sum_list (map snd (match_exposure s))
      in (\<lparr>rs_daily_pnl = daily_pnl s,
           rs_daily_loss_limit = daily_loss_limit s,
           rs_daily_loss_remaining = daily_loss_limit s + daily_pnl s,
           rs_current_exposure = total_exposure,
           rs_max_exposure = per_match_max_exposure s * 10,
           rs_consecutive_errors = consecutive_errors s,
           rs_circuit_breaker_active = circuit_breaker_active s,
           rs_last_error = last_error s\<rparr>, s))"

definition calculate_position_size ::
  "date \<Rightarrow> order_intent \<Rightarrow> rat \<Rightarrow> risk_manager \<Rightarrow> rat \<times> risk_manager" where
  "calculate_position_size today intent current_price s0 =
     (let s = reset_daily_if_needed today s0;
          base_size = bankroll s * max_per_trade_pct s;
          daily_remaining = daily_loss_limit s + daily_pnl s;
          base_size = (if daily_remaining < base_size then max 0 daily_remaining
                       else base_size);
          current_match_exposure = dict_get (match_exposure s) (oi_match_id intent) 0;
          match_remaining = per_match_max_exposure s - current_match_exposure;
          base_size = (if match_remaining < base_size then max 0 match_remaining
                       else base_size)
      in (py_round2 base_size, s))"

definition check_trade_allowed ::
  "date \<Rightarrow> order_intent \<Rightarrow> risk_manager \<Rightarrow> (bool \<times> risk_reason) \<times> risk_manager" where
  "check_trade_allowed today intent s0 =
     (let s = reset_daily_if_needed today s0
      in if circuit_breaker_active s
         then ((False, CircuitBreakerActive (consecutive_errors s)), s)
         else if daily_pnl s \<le> - daily_loss_limit s
         then ((False, DailyLossLimitReached (daily_pnl s)), s)
         else let current_match_exposure =
                    dict_get (match_exposure s) (oi_match_id intent) 0
              in if per_match_max_exposure s \<le> current_match_exposure
                 then ((False, PerMatchExposureLimitReached current_match_exposure), s)
                 else let (sz, s') =
                            calculate_position_size today intent (oi_limit_price intent) s
                      in if sz < 1 then ((False, PositionSizeTooSmall sz), s')
                         else ((True, TradeAllowed), s'))"

definition approve_trade ::
  "date \<Rightarrow> order_intent \<Rightarrow> risk_manager
     \<Rightarrow> (order_intent option \<times> risk_reason) \<times> risk_manager" where
  "approve_trade today intent s0 =
     (let ((allowed, reason), s) = check_trade_allowed today intent s0
      in if \<not> allowed then ((None, reason), s)
         else let (sz, s') =
                    calculate_position_size today intent (oi_limit_price intent) s
              in ((Some (intent\<lparr>oi_size := sz\<rparr>), ApprovedWithSize sz), s'))"

definition record_trade_result ::
  "date \<Rightarrow> int \<Rightarrow> rat \<Rightarrow> rat \<Rightarrow> risk_manager \<Rightarrow> risk_manager" where
  "record_trade_result today match_id pnl exposure_change s0 =
     (let s = reset_daily_if_needed today s0;
          s = s\<lparr>daily_pnl := daily_pnl s + pnl\<rparr>;
          current_exposure = dict_get (match_exposure s) match_id 0
      in s\<lparr>match_exposure :=
             dict_set match_id (max 0 (current_exposure + exposure_change))
               (match_exposure s)\<rparr>)"

definition record_error :: "string \<Rightarrow> risk_manager \<Rightarrow> risk_manager" where
  "record_error error_message s0 =
     (let s = s0\<lparr>consecutive_errors := consecutive_errors s0 + 1,
                 last_error := Some error_message\<rparr>
      in if max_consecutive_errors s \<le> consecutive_errors s
         then s\<lparr>circuit_breaker_active := True\<rparr>
         else s)"

definition record_success :: "risk_manager \<Rightarrow> risk_manager" where
  "record_success s = s\<lparr>consecutive_errors := 0\<rparr>"

definition reset_circuit_breaker :: "risk_manager \<Rightarrow> risk_manager" where
  "reset_circuit_breaker s =
     s\<lparr>circuit_breaker_active := False, consecutive_errors := 0, last_error := None\<rparr>"

definition update_bankroll :: "rat \<Rightarrow> risk_manager \<Rightarrow> risk_manager" where
  "update_bankroll new_bankroll s = s\<lparr>bankroll := new_bankroll\<rparr>"

definition add_position :: "position \<Rightarrow> risk_manager \<Rightarrow> risk_manager" where
  "add_position p s =
     s\<lparr>rm_open_positions := rm_open_positions s @ [p],
       match_exposure :=
         dict_set (pos_match_id p)
           (dict_get (match_exposure s) (pos_match_id p) 0 + pos_size p)
           (match_exposure s)\<rparr>"

fun remove_first :: "string \<Rightarrow> position list \<Rightarrow> position option \<times> position list" where
  "remove_first pid [] = (None, [])"
| "remove_first pid (p # ps) =
     (if pos_id p = pid then (Some p, ps)
      else let (r, ps') = remove_first pid ps in (r, p # ps'))"

definition remove_position ::
  "string \<Rightarrow> risk_manager \<Rightarrow> position option \<times> risk_manager" where
  "remove_position position_id s =
     (let (r, ps) = remove_first position_id (rm_open_positions s)
      in (r, s\<lparr>rm_open_positions := ps\<rparr>))"

definition get_open_positions :: "risk_manager \<Rightarrow> position list" where
  "get_open_positions s = rm_open_positions s"

text \<open>The public operations of the risk manager, and the state each one leaves.\<close>

datatype rm_op =
    GetStatus
  | CalculatePositionSize order_intent rat
  | CheckTradeAllowed order_intent
  | ApproveTrade order_intent
  | RecordTradeResult int rat rat
  | RecordError string
  | RecordSuccess
  | ResetCircuitBreaker
  | UpdateBankroll rat
  | AddPosition position
  | RemovePosition string
  | GetOpenPositions

fun rm_step :: "date \<Rightarrow> rm_op \<Rightarrow> risk_manager \<Rightarrow> risk_manager" where
  "rm_step today GetStatus s = snd (get_status today s)"
| "rm_step today (CalculatePositionSize i p) s = snd (calculate_position_size today i p s)"
| "rm_step today (CheckTradeAllowed i) s = snd (check_trade_allowed today i s)"
| "rm_step today (ApproveTrade i) s = snd (approve_trade today i s)"
| "rm_step today (RecordTradeResult m pnl e) s = record_trade_result today m pnl e s"
| "rm_step today (RecordError msg) s = record_error msg s"
| "rm_step today RecordSuccess s = record_success s"
| "rm_step today ResetCircuitBreaker s = reset_circuit_breaker s"
| "rm_step today (UpdateBankroll b) s = update_bankroll b s"
| "rm_step today (AddPosition p) s = add_position p s"
| "rm_step today (RemovePosition pid) s = snd (remove_position pid s)"
| "rm_step today GetOpenPositions s = s"

text \<open>Several \<open>record_error\<close> calls in a row, one per message.\<close>

fun record_errors :: "string list \<Rightarrow> risk_manager \<Rightarrow> risk_manager" where
  "record_errors [] s = s"
| "record_errors (m # ms) s = record_errors ms (record_error m s)"

text \<open>The risk manager as \<open>__init__\<close> leaves it under the default settings.\<close>

definition default_risk_manager :: "date \<Rightarrow> risk_manager" where
  "default_risk_manager today =
     \<lparr>bankroll = 10000, max_per_trade_pct = (1 / 2) / 100, daily_loss_limit = 500,
      per_match_max_exposure = 200, max_consecutive_errors = 5, daily_pnl = 0,
      current_date = today, match_exposure = [], consecutive_errors = 0,
      circuit_breaker_active = False, last_error = None, rm_open_positions = []\<rparr>"

definition sample_order_intent :: order_intent where
  "sample_order_intent =
     \<lparr>oi_id = ''intent-123'', oi_match_id = 12345,
      oi_market_id = ''SOCCER-EPL-MUFC-LIV-WIN'', oi_exchange = ''kalshi'',
      oi_side = BUY, oi_outcome = ''yes'', oi_size = 0, oi_limit_price = 37 / 100,
      oi_reason = GivenReason ''Underdog Liverpool scored'',
      oi_goal_event_id = ''12345-away-1-30''\<rparr>"

text \<open>
  The size as the specification words it: the least of the bankroll fraction, the
  remaining daily-loss budget and the remaining per-contest budget.
\<close>

definition clamped_size :: "order_intent \<Rightarrow> risk_manager \<Rightarrow> rat" where
  "clamped_size intent s =
     min (bankroll s * max_per_trade_pct s)
       (min (daily_loss_limit s + daily_pnl s)
            (per_match_max_exposure s - dict_get (match_exposure s) (oi_match_id intent) 0))"

text \<open>The messages of \<open>test_record_error_triggers_circuit_breaker\<close>.\<close>

definition five_errors :: "string list" where
  "five_errors = [''Error 0'', ''Error 1'', ''Error 2'', ''Error 3'', ''Error 4'']"


subsection \<open>Strings\<close>

text \<open>
  Strings are ASCII texts. \<open>str.lower\<close> sets bit 5 of the letters A to Z,
  \<open>a in b\<close> is substring search, \<open>s.replace(pat, "")\<close> removes the occurrences of a
  non-empty pattern from left to right, and \<open>s.split()[0]\<close> is the first run of
  non-blank characters, an \<open>IndexError\<close> when there is none.
\<close>

datatype py_error = IndexError | ZeroDivisionError | Fault string

definition char_lower :: "char \<Rightarrow> char" where
  "char_lower c =
     (case c of Char b0 b1 b2 b3 b4 b5 b6 b7 \<Rightarrow>
        (let n = (of_char c :: nat)
         in if 65 \<le> n \<and> n \<le> 90 then Char b0 b1 b2 b3 b4 True b6 b7 else c))"

definition py_lower :: "string \<Rightarrow> string" where
  "py_lower s = map char_lower s"

definition is_space :: "char \<Rightarrow> bool" where
  "is_space c =
     (let n = (of_char c :: nat) in (9 \<le> n \<and> n \<le> 13) \<or> (28 \<le> n \<and> n \<le> 32))"

fun startswith :: "string \<Rightarrow> string \<Rightarrow> bool" where
  "startswith s [] = True"
| "startswith [] (p # ps) = False"
| "startswith (c # cs) (p # ps) = (c = p \<and> startswith cs ps)"

fun py_in :: "string \<Rightarrow> string \<Rightarrow> bool" where
  "py_in sub [] = (sub = [])"
| "py_in sub (c # cs) = (startswith (c # cs) sub \<or> py_in sub cs)"

function py_remove :: "string \<Rightarrow> string \<Rightarrow> string" where
  "py_remove pat [] = []"
| "py_remove pat (c # cs) =
     (if pat \<noteq> [] \<and> startswith (c # cs) pat
      then py_remove pat (drop (length pat) (c # cs))
      else c # py_remove pat cs)"
  by pat_completeness auto

termination
  by (relation "measure (\<lambda>(pat, s). length s)") (auto simp: neq_Nil_conv)

definition first_word :: "string \<Rightarrow> py_error + string" where
  "first_word s =
     (case dropWhile is_space s of
        [] \<Rightarrow> Inl IndexError
      | c # cs \<Rightarrow> Inr (takeWhile (\<lambda>x. \<not> is_space x) (c # cs)))"

text \<open>\<open>x or y\<close> with an optional number \<open>x\<close>: \<open>None\<close> and zero are falsy.\<close>

definition py_or_rat :: "rat option \<Rightarrow> rat \<Rightarrow> rat" where
  "py_or_rat x y = (case x of None \<Rightarrow> y | Some v \<Rightarrow> if v \<noteq> 0 then v else y)"

definition py_or_int :: "int option \<Rightarrow> int \<Rightarrow> int" where
  "py_or_int x y = (case x of None \<Rightarrow> y | Some v \<Rightarrow> if v \<noteq> 0 then v else y)"

subsection \<open>Contests, events, markets, orders, trades\<close>

datatype match_status =
    NOT_STARTED | FIRST_HALF | HALFTIME | SECOND_HALF | EXTRA_TIME | PENALTIES
  | FINISHED | MS_CANCELLED | POSTPONED | ABANDONED | SUSPENDED | LIVE

record team =
  team_id :: int
  team_name :: string

record match =
  m_id :: int
  m_league_id :: int
  m_league_name :: string
  m_home_team :: team
  m_away_team :: team
  m_home_score :: int
  m_away_score :: int
  m_status :: match_status
  m_minute :: "int option"
  m_kickoff :: timestamp
  m_display_name :: string

record goal_event =
  ge_id :: string
  ge_match_id :: int
  ge_timestamp :: timestamp
  ge_minute :: "int option"
  ge_scoring_team_id :: int
  ge_scoring_team_name :: string
  ge_is_home_team :: bool
  ge_home_score :: int
  ge_away_score :: int

record market =
  mk_id :: string
  mk_exchange :: string
  mk_title :: string
  mk_yes_price :: rat
  mk_no_price :: rat
  mk_yes_volume :: rat
  mk_no_volume :: rat
  mk_status :: string

record match_market_mapping =
  mm_match_id :: int
  mm_home_team_name :: string
  mm_away_team_name :: string
  mm_league_name :: string
  mm_kickoff :: timestamp
  mm_markets :: "market list"
  mm_pre_goal_home_prob :: "rat option"
  mm_pre_goal_away_prob :: "rat option"

datatype order_status = PENDING | SUBMITTED | FILLED | REJECTED | CANCELLED

record order =
  o_id :: string
  o_intent_id :: string
  o_match_id :: int
  o_market_id :: string
  o_exchange :: string
  o_side :: order_side
  o_outcome :: string
  o_size :: rat
  o_limit_price :: rat
  o_status :: order_status
  o_exchange_order_id :: "string option"
  o_submitted_at :: "timestamp option"
  o_filled_at :: "timestamp option"
  o_filled_size :: "rat option"
  o_avg_fill_price :: "rat option"
  o_error_message :: "string option"

record trade =
  tr_id :: string
  tr_match_id :: int
  tr_match_name :: string
  tr_market_id :: string
  tr_exchange :: string
  tr_outcome :: string
  tr_entry_price :: rat
  tr_exit_price :: "rat option"
  tr_size :: rat
  tr_pnl :: rat
  tr_pnl_pct :: rat
  tr_entry_time :: timestamp
  tr_exit_time :: "timestamp option"
  tr_goal_event_id :: string
  tr_reason :: intent_reason

section \<open>State manager (core/state.py)\<close>

text \<open>
  The soccer ledger: matches, mappings, processed goals, positions and trades. The
  aggregate metrics are recomputed from these on demand and are not stored here.
\<close>

record state_manager =
  matches :: "(int \<times> match) list"
  match_mappings :: "(int \<times> match_market_mapping) list"
  processed_goals :: "string set"
  goal_history :: "goal_event list"
  sm_open_positions :: "(string \<times> position) list"
  closed_positions :: "position list"
  trades :: "trade list"
  latencies :: "rat list"

definition get_match :: "state_manager \<Rightarrow> int \<Rightarrow> match option" where
  "get_match sm match_id = map_of (matches sm) match_id"

definition set_mapping ::
  "int \<Rightarrow> match_market_mapping \<Rightarrow> state_manager \<Rightarrow> state_manager" where
  "set_mapping match_id mapping sm =
     sm\<lparr>match_mappings := dict_set match_id mapping (match_mappings sm)\<rparr>"

definition get_mapping :: "state_manager \<Rightarrow> int \<Rightarrow> match_market_mapping option" where
  "get_mapping sm match_id = map_of (match_mappings sm) match_id"

definition is_goal_processed :: "state_manager \<Rightarrow> string \<Rightarrow> bool" where
  "is_goal_processed sm goal_id = (goal_id \<in> processed_goals sm)"

definition mark_goal_processed :: "goal_event \<Rightarrow> state_manager \<Rightarrow> state_manager" where
  "mark_goal_processed goal sm =
     sm\<lparr>processed_goals := insert (ge_id goal) (processed_goals sm),
        goal_history := goal_history sm @ [goal]\<rparr>"

definition sm_add_position :: "position \<Rightarrow> state_manager \<Rightarrow> state_manager" where
  "sm_add_position p sm =
     sm\<lparr>sm_open_positions := dict_set (pos_id p) p (sm_open_positions sm)\<rparr>"

definition get_position :: "state_manager \<Rightarrow> string \<Rightarrow> position option" where
  "get_position sm position_id = map_of (sm_open_positions sm) position_id"

definition sm_get_open_positions :: "state_manager \<Rightarrow> position list" where
  "sm_get_open_positions sm = map snd (sm_open_positions sm)"

definition sm_close_position ::
  "timestamp \<Rightarrow> string \<Rightarrow> rat \<Rightarrow> string \<Rightarrow> state_manager
     \<Rightarrow> position option \<times> state_manager" where
  "sm_close_position now position_id exit_price exit_order_id sm =
     (case map_of (sm_open_positions sm) position_id of
        None \<Rightarrow> (None, sm)
      | Some p \<Rightarrow>
          (let p = p\<lparr>pos_status := CLOSED, pos_current_price := exit_price,
                     pos_closed_at := Some now, pos_exit_order_id := Some exit_order_id\<rparr>;
               p = (if pos_outcome p = ''yes''
                    then p\<lparr>pos_realized_pnl := (exit_price - pos_entry_price p) * pos_size p\<rparr>
                    else p\<lparr>pos_realized_pnl := (pos_entry_price p - exit_price) * pos_size p\<rparr>)
           in (Some p,
               sm\<lparr>sm_open_positions := dict_del position_id (sm_open_positions sm),
                  closed_positions := closed_positions sm @ [p]\<rparr>)))"


definition add_trade :: "trade \<Rightarrow> state_manager \<Rightarrow> state_manager" where
  "add_trade t sm = sm\<lparr>trades := trades sm @ [t]\<rparr>"

definition record_latency :: "rat \<Rightarrow> state_manager \<Rightarrow> state_manager" where
  "record_latency latency_ms sm = sm\<lparr>latencies := latencies sm @ [latency_ms]\<rparr>"

section \<open>Post-trade manager (core/post\_trade.py)\<close>

record post_trade_manager =
  take_profit_pct :: rat
  stop_loss_pct :: rat
  max_position_time_mins :: rat

definition calculate_pnl :: "rat \<Rightarrow> rat \<Rightarrow> rat \<Rightarrow> string \<Rightarrow> rat \<times> rat" where
  "calculate_pnl entry_price exit_price sz outcome =
     (let pnl_pct =
            (if py_lower outcome = ''yes''
             then (if 0 < entry_price then (exit_price - entry_price) / entry_price else 0)
             else (if 0 < entry_price then (entry_price - exit_price) / entry_price else 0));
          pnl_dollars = sz * pnl_pct
      in (pnl_dollars, pnl_pct * 100))"

definition calculate_unrealized_pnl :: "position \<Rightarrow> rat \<times> rat" where
  "calculate_unrealized_pnl p =
     calculate_pnl (pos_entry_price p) (pos_current_price p) (pos_size p) (pos_outcome p)"

definition check_take_profit :: "post_trade_manager \<Rightarrow> position \<Rightarrow> bool" where
  "check_take_profit ptm p =
     (let pnl_pct = snd (calculate_unrealized_pnl p)
      in if take_profit_pct ptm * 100 \<le> pnl_pct then True else False)"

definition check_stop_loss :: "post_trade_manager \<Rightarrow> position \<Rightarrow> bool" where
  "check_stop_loss ptm p =
     (let pnl_pct = snd (calculate_unrealized_pnl p)
      in if pnl_pct \<le> - stop_loss_pct ptm * 100 then True else False)"

definition minutes_between :: "timestamp \<Rightarrow> timestamp \<Rightarrow> rat" where
  "minutes_between now earlier = of_int (now - earlier) / 1000000 / 60"

definition check_time_exit :: "post_trade_manager \<Rightarrow> timestamp \<Rightarrow> position \<Rightarrow> bool" where
  "check_time_exit ptm now p =
     (let time_open = minutes_between now (pos_opened_at p)
      in if max_position_time_mins ptm \<le> time_open then True else False)"

definition check_match_ended :: "state_manager \<Rightarrow> position \<Rightarrow> bool" where
  "check_match_ended sm p =
     (case get_match sm (pos_match_id p) of
        None \<Rightarrow> False
      | Some m \<Rightarrow>
          (if m_status m \<in> {FINISHED, MS_CANCELLED, ABANDONED, POSTPONED} then True
           else False))"

definition get_exit_reason ::
  "post_trade_manager \<Rightarrow> timestamp \<Rightarrow> state_manager \<Rightarrow> position \<Rightarrow> string option" where
  "get_exit_reason ptm now sm p =
     (if check_take_profit ptm p then Some ''take_profit''
      else if check_stop_loss ptm p then Some ''stop_loss''
      else if check_time_exit ptm now p then Some ''time_exit''
      else if check_match_ended sm p then Some ''match_ended''
      else None)"

definition get_positions_to_exit ::
  "post_trade_manager \<Rightarrow> timestamp \<Rightarrow> state_manager \<Rightarrow> (position \<times> string) list" where
  "get_positions_to_exit ptm now sm =
     List.map_filter
       (\<lambda>p. case get_exit_reason ptm now sm p of None \<Rightarrow> None | Some r \<Rightarrow> Some (p, r))
       (sm_get_open_positions sm)"

definition default_post_trade_manager :: post_trade_manager where
  "default_post_trade_manager =
     \<lparr>take_profit_pct = 15 / 100, stop_loss_pct = 10 / 100, max_position_time_mins = 90\<rparr>"

section \<open>Order executor (core/order\_executor.py)\<close>

text \<open>
  The exchange client is a collaborator: \<open>place_order\<close> either raises, or returns
  something falsy (\<open>None\<close> or an empty dict), or returns a dict, of which the executor
  reads the keys \<open>order_id\<close>, \<open>status\<close> and \<open>avg_price\<close>.
\<close>

record kalshi_request =
  rq_ticker :: string
  rq_side :: order_side
  rq_outcome :: string
  rq_size :: int
  rq_limit_price :: int
  rq_client_order_id :: string

record exchange_response =
  resp_order_id :: "string option"
  resp_status :: "string option"
  resp_avg_price :: "rat option"

datatype exchange_outcome = Raised string | Falsy | Response exchange_response

type_synonym exchange = "kalshi_request \<Rightarrow> exchange_outcome"

datatype exec_message =
    OrderSubmitted rat
  | OrderRejected
  | ExecutionError string
  | UnknownExchange string

text \<open>The message as text; the latency figure of the success message is left out.\<close>

fun message_text :: "exec_message \<Rightarrow> string" where
  "message_text (OrderSubmitted latency_ms) = ''Order submitted successfully''"
| "message_text OrderRejected = ''Order rejected by exchange''"
| "message_text (ExecutionError e) = ''Execution error: '' @ e"
| "message_text (UnknownExchange x) = ''Unknown exchange: '' @ x"

record order_executor =
  pending_orders :: "(string \<times> order) list"
  completed_orders :: "order list"

text \<open>\<open>int(x)\<close> on a number: truncation towards zero.\<close>

definition py_int :: "rat \<Rightarrow> int" where
  "py_int x = (if 0 \<le> x then \<lfloor>x\<rfloor> else \<lceil>x\<rceil>)"

definition execute_kalshi :: "exchange \<Rightarrow> order_intent \<Rightarrow> order \<Rightarrow> exchange_outcome" where
  "execute_kalshi exch intent ord =
     (let price_cents = py_int (oi_limit_price intent * 100);
          price_cents = max 1 (min 99 price_cents)
      in if oi_limit_price intent = 0 then Raised ''float division by zero''
         else let num_contracts = py_int (oi_size intent / oi_limit_price intent);
                  num_contracts = max 1 num_contracts
              in exch \<lparr>rq_ticker = oi_market_id intent, rq_side = oi_side intent,
                       rq_outcome = oi_outcome intent, rq_size = num_contracts,
                       rq_limit_price = price_cents, rq_client_order_id = o_id ord\<rparr>)"

text \<open>
  \<open>execute\<close>: \<open>oid\<close> is the fresh order id, \<open>start_time\<close> and \<open>end_time\<close> the two
  clock readings. The last step is the \<open>finally\<close> block, which runs on every path.
\<close>

definition new_order :: "string \<Rightarrow> order_intent \<Rightarrow> order" where
  "new_order oid intent =
     \<lparr>o_id = oid, o_intent_id = oi_id intent, o_match_id = oi_match_id intent,
      o_market_id = oi_market_id intent, o_exchange = oi_exchange intent,
      o_side = oi_side intent, o_outcome = oi_outcome intent, o_size = oi_size intent,
      o_limit_price = oi_limit_price intent, o_status = PENDING,
      o_exchange_order_id = None, o_submitted_at = None, o_filled_at = None,
      o_filled_size = None, o_avg_fill_price = None, o_error_message = None\<rparr>"

definition execute_body ::
  "exchange \<Rightarrow> timestamp \<Rightarrow> timestamp \<Rightarrow> order_intent \<Rightarrow> order
     \<Rightarrow> (order option \<times> exec_message) \<times> order" where
  "execute_body exch start_time end_time intent ord =
     (if oi_exchange intent = ''kalshi''
      then (case execute_kalshi exch intent ord of
              Raised e \<Rightarrow>
                (let ord = ord\<lparr>o_status := REJECTED, o_error_message := Some e\<rparr>
                 in ((Some ord, ExecutionError e), ord))
            | Falsy \<Rightarrow>
                (let ord = ord\<lparr>o_status := REJECTED,
                                o_error_message := Some ''Exchange rejected order''\<rparr>
                 in ((Some ord, OrderRejected), ord))
            | Response r \<Rightarrow>
                (let latency_ms = of_int (end_time - start_time) / 1000;
                     ord = ord\<lparr>o_exchange_order_id := resp_order_id r,
                                o_status := SUBMITTED, o_submitted_at := Some end_time\<rparr>;
                     ord = (if resp_status r = Some ''filled''
                            then ord\<lparr>o_status := FILLED, o_filled_at := Some end_time,
                                      o_filled_size := Some (oi_size intent),
                                      o_avg_fill_price :=
                                        (case resp_avg_price r of
                                           None \<Rightarrow> Some (oi_limit_price intent)
                                         | Some a \<Rightarrow> Some a)\<rparr>
                            else ord)
                 in ((Some ord, OrderSubmitted latency_ms), ord)))
      else ((None, UnknownExchange (oi_exchange intent)), ord))"

definition execute ::
  "exchange \<Rightarrow> string \<Rightarrow> timestamp \<Rightarrow> timestamp \<Rightarrow> order_intent \<Rightarrow> order_executor
     \<Rightarrow> (order option \<times> exec_message) \<times> order_executor" where
  "execute exch oid start_time end_time intent ex =
     (let ord = new_order oid intent;
          ex = ex\<lparr>pending_orders := dict_set oid ord (pending_orders ex)\<rparr>;
          (result, ord) = execute_body exch start_time end_time intent ord;
          ex = (if o_id ord \<in> fst ` set (pending_orders ex)
                then ex\<lparr>pending_orders := dict_del (o_id ord) (pending_orders ex)\<rparr>
                else ex)
      in (result, ex\<lparr>completed_orders := completed_orders ex @ [ord]\<rparr>))"

definition get_pending_orders :: "order_executor \<Rightarrow> order list" where
  "get_pending_orders ex = map snd (pending_orders ex)"

text \<open>\<open>xs[-limit:]\<close> for a limit that is not negative; \<open>xs[-0:]\<close> is all of \<open>xs\<close>.\<close>

definition last_n :: "nat \<Rightarrow> 'a list \<Rightarrow> 'a list" where
  "last_n n xs = (if n = 0 then xs else drop (length xs - n) xs)"

definition get_completed_orders :: "nat \<Rightarrow> order_executor \<Rightarrow> order list" where
  "get_completed_orders limit ex = last_n limit (completed_orders ex)"

definition get_order :: "order_executor \<Rightarrow> string \<Rightarrow> order option" where
  "get_order ex order_id =
     (case map_of (pending_orders ex) order_id of
        Some ord \<Rightarrow> Some ord
      | None \<Rightarrow> find (\<lambda>ord. o_id ord = order_id) (completed_orders ex))"

text \<open>Sample inputs for the executor.\<close>

definition empty_executor :: order_executor where
  "empty_executor = \<lparr>pending_orders = [], completed_orders = []\<rparr>"

definition failing_exchange :: exchange where
  "failing_exchange rq = Raised ''connection reset''"

definition unknown_exchange_intent :: order_intent where
  "unknown_exchange_intent = sample_order_intent\<lparr>oi_exchange := ''polymarket''\<rparr>"

text \<open>
  The exit conditions in the order the specification lists them, each with its reason;
  the first that holds decides.
\<close>

definition exit_conditions ::
  "post_trade_manager \<Rightarrow> timestamp \<Rightarrow> state_manager \<Rightarrow> position \<Rightarrow> (string \<times> bool) list" where
  "exit_conditions ptm now sm p =
     [(''take_profit'', take_profit_pct ptm * 100 \<le> snd (calculate_unrealized_pnl p)),
      (''stop_loss'', snd (calculate_unrealized_pnl p) \<le> - stop_loss_pct ptm * 100),
      (''time_exit'', max_position_time_mins ptm \<le> minutes_between now (pos_opened_at p)),
      (''match_ended'',
         (case get_match sm (pos_match_id p) of
            None \<Rightarrow> False
          | Some m \<Rightarrow> m_status m \<in> {FINISHED, MS_CANCELLED, ABANDONED, POSTPONED}))]"

definition first_true :: "(string \<times> bool) list \<Rightarrow> string option" where
  "first_true conds = map_option fst (find snd conds)"

section \<open>Decision engine (core/decision\_engine.py)\<close>

record decision_engine =
  underdog_threshold :: rat
  min_liquidity :: rat
  max_price_after_goal :: rat
  min_time_remaining :: int

definition default_decision_engine :: decision_engine where
  "default_decision_engine =
     \<lparr>underdog_threshold = 1 / 2, min_liquidity = 100, max_price_after_goal = 65 / 100,
      min_time_remaining = 15\<rparr>"

definition is_underdog ::
  "decision_engine \<Rightarrow> int \<Rightarrow> match \<Rightarrow> match_market_mapping \<Rightarrow> bool \<times> rat option" where
  "is_underdog eng tid m mapping =
     (let is_home = (tid = team_id (m_home_team m));
          pre_prob = (if is_home then mm_pre_goal_home_prob mapping
                      else mm_pre_goal_away_prob mapping)
      in case pre_prob of
           None \<Rightarrow> (\<not> is_home, None)
         | Some pr \<Rightarrow> (pr < underdog_threshold eng, Some pr))"

text \<open>
  The test of one market title. The alias list is built before \<open>any\<close> looks at it, so
  \<open>split()[0]\<close> is evaluated, and may raise, whenever the team name is not in the title.
\<close>

definition title_matches :: "string \<Rightarrow> string \<Rightarrow> py_error + bool" where
  "title_matches team_lower title_lower =
     (if py_in team_lower title_lower then Inr True
      else case first_word team_lower of
             Inl e \<Rightarrow> Inl e
           | Inr w \<Rightarrow>
               Inr (py_in (py_remove '' fc'' team_lower) title_lower \<or> py_in w title_lower))"

definition market_score :: "rat \<Rightarrow> market \<Rightarrow> int" where
  "market_score min_liq mk =
     1 + (if py_in ''win'' (py_lower (mk_title mk)) then 2 else 0)
       + (if mk_status mk = ''open'' then 1 else 0)
       + (if min_liq < mk_yes_volume mk then 1 else 0)"

fun find_best_loop ::
  "rat \<Rightarrow> string \<Rightarrow> market list \<Rightarrow> market option \<Rightarrow> int \<Rightarrow> py_error + market option" where
  "find_best_loop min_liq tname [] best_market best_score = Inr best_market"
| "find_best_loop min_liq tname (mk # mks) best_market best_score =
     (case title_matches (py_lower tname) (py_lower (mk_title mk)) of
        Inl e \<Rightarrow> Inl e
      | Inr hit \<Rightarrow>
          (if hit \<and> best_score < market_score min_liq mk
           then find_best_loop min_liq tname mks (Some mk) (market_score min_liq mk)
           else find_best_loop min_liq tname mks best_market best_score))"

definition find_best_market ::
  "decision_engine \<Rightarrow> int \<Rightarrow> match \<Rightarrow> match_market_mapping \<Rightarrow> py_error + market option" where
  "find_best_market eng tid m mapping =
     (let is_home = (tid = team_id (m_home_team m));
          tname = (if is_home then team_name (m_home_team m) else team_name (m_away_team m))
      in find_best_loop (min_liquidity eng) tname (mm_markets mapping) None 0)"

definition check_value ::
  "decision_engine \<Rightarrow> market \<Rightarrow> rat option \<Rightarrow> bool \<times> value_reason" where
  "check_value eng mk pre_goal_prob =
     (let current_price = mk_yes_price mk;
          by_default = (if current_price < 1 / 2 then (True, PriceBelow50 current_price)
                        else (False, NoClearValue current_price))
      in if max_price_after_goal eng < current_price
         then (False, PriceTooHigh current_price (max_price_after_goal eng))
         else case pre_goal_prob of
                None \<Rightarrow> by_default
              | Some pr \<Rightarrow>
                  (let expected_move = 1 / 10
                   in if current_price < pr + expected_move
                      then (True, ValueFound current_price (pr + expected_move))
                      else by_default))"

definition check_liquidity :: "decision_engine \<Rightarrow> market \<Rightarrow> bool \<times> liquidity_reason" where
  "check_liquidity eng mk =
     (let total_volume = mk_yes_volume mk + mk_no_volume mk
      in if total_volume < min_liquidity eng
         then (False, InsufficientLiquidity total_volume (min_liquidity eng))
         else (True, LiquidityOK total_volume))"

definition check_time_remaining ::
  "decision_engine \<Rightarrow> match \<Rightarrow> goal_event \<Rightarrow> bool \<times> time_reason" where
  "check_time_remaining eng m goal =
     (let minute = py_or_int (ge_minute goal) (py_or_int (m_minute m) 0);
          time_remaining = 90 - minute
      in if time_remaining < min_time_remaining eng
         then (False, NotEnoughTime time_remaining (min_time_remaining eng))
         else (True, TimeRemainingOK time_remaining))"

definition evaluate_goal ::
  "decision_engine \<Rightarrow> string \<Rightarrow> goal_event \<Rightarrow> match \<Rightarrow> match_market_mapping
     \<Rightarrow> py_error + order_intent option" where
  "evaluate_goal eng uuid goal m mapping =
     (let (underdog, pre_prob) = is_underdog eng (ge_scoring_team_id goal) m mapping
      in if \<not> underdog then Inr None
         else case find_best_market eng (ge_scoring_team_id goal) m mapping of
                Inl e \<Rightarrow> Inl e
              | Inr None \<Rightarrow> Inr None
              | Inr (Some mk) \<Rightarrow>
                  (let (has_value, value_reason) = check_value eng mk pre_prob
                   in if \<not> has_value then Inr None
                      else let (has_liquidity, liquidity_reason) = check_liquidity eng mk
                           in if \<not> has_liquidity then Inr None
                              else let (time_ok, time_reason) =
                                         check_time_remaining eng m goal
                                   in if \<not> time_ok then Inr None
                                      else Inr (Some
                                        \<lparr>oi_id = uuid, oi_match_id = m_id m,
                                         oi_market_id = mk_id mk,
                                         oi_exchange = mk_exchange mk, oi_side = BUY,
                                         oi_outcome = ''yes'', oi_size = 0,
                                         oi_limit_price = mk_yes_price mk + 2 / 100,
                                         oi_reason =
                                           UnderdogScored (ge_scoring_team_name goal)
                                             pre_prob value_reason liquidity_reason
                                             time_reason,
                                         oi_goal_event_id = ge_id goal\<rparr>)))"

text \<open>The fixtures of the decision-engine tests.\<close>

definition sample_match :: match where
  "sample_match =
     \<lparr>m_id = 12345, m_league_id = 39, m_league_name = ''Premier League'',
      m_home_team = \<lparr>team_id = 1, team_name = ''Manchester United''\<rparr>,
      m_away_team = \<lparr>team_id = 2, team_name = ''Liverpool''\<rparr>,
      m_home_score = 0, m_away_score = 0, m_status = FIRST_HALF, m_minute = Some 25,
      m_kickoff = 0, m_display_name = ''Manchester United vs Liverpool''\<rparr>"

definition sample_goal_event :: goal_event where
  "sample_goal_event =
     \<lparr>ge_id = ''12345-away-1-30'', ge_match_id = 12345, ge_timestamp = 0,
      ge_minute = Some 30, ge_scoring_team_id = 2, ge_scoring_team_name = ''Liverpool'',
      ge_is_home_team = False, ge_home_score = 0, ge_away_score = 1\<rparr>"

definition sample_market :: market where
  "sample_market =
     \<lparr>mk_id = ''SOCCER-EPL-MUFC-LIV-WIN'', mk_exchange = ''kalshi'',
      mk_title = ''Liverpool to win vs Manchester United'', mk_yes_price = 35 / 100,
      mk_no_price = 65 / 100, mk_yes_volume = 5000, mk_no_volume = 3000,
      mk_status = ''open''\<rparr>"

definition sample_mapping :: match_market_mapping where
  "sample_mapping =
     \<lparr>mm_match_id = 12345, mm_home_team_name = ''Manchester United'',
      mm_away_team_name = ''Liverpool'', mm_league_name = ''Premier League'',
      mm_kickoff = 0, mm_markets = [sample_market],
      mm_pre_goal_home_prob = Some (55 / 100), mm_pre_goal_away_prob = Some (35 / 100)\<rparr>"

text \<open>The sample goal, scored in minute 80 instead.\<close>

definition late_goal_event :: goal_event where
  "late_goal_event = sample_goal_event\<lparr>ge_minute := Some 80\<rparr>"

text \<open>The sample mapping with the away side as favourite.\<close>

definition favourite_mapping :: match_market_mapping where
  "favourite_mapping = sample_mapping\<lparr>mm_pre_goal_away_prob := Some (65 / 100)\<rparr>"

section \<open>Trade service (services/trade\_service.py)\<close>

text \<open>
  The singletons the service wires together, and what one call reads from outside: the
  date, the clock (one reading per call), the fresh ids, the exchange and the market
  mapper. Telemetry is observational and left out. Fields that a constructor call does
  not give take the defaults of the data model: no P/L, no exit.
\<close>

record settings =
  st_take_profit_pct :: rat
  st_stop_loss_pct :: rat


record pipeline =
  p_engine :: decision_engine
  p_state :: state_manager
  p_risk :: risk_manager
  p_executor :: order_executor
  p_enabled :: bool

record env =
  env_today :: date
  env_now :: timestamp
  env_intent_id :: string
  env_order_id :: string
  env_position_id :: string
  env_trade_id :: string
  env_exchange :: exchange
  env_create_mapping :: "match \<Rightarrow> py_error + match_market_mapping"

text \<open>\<open>str(e)\<close> of a caught exception.\<close>

fun error_text :: "py_error \<Rightarrow> string" where
  "error_text IndexError = ''list index out of range''"
| "error_text ZeroDivisionError = ''float division by zero''"
| "error_text (Fault e) = e"

definition open_position :: "env \<Rightarrow> match \<Rightarrow> order \<Rightarrow> position" where
  "open_position env m ord =
     \<lparr>pos_id = env_position_id env, pos_match_id = m_id m, pos_market_id = o_market_id ord,
      pos_exchange = o_exchange ord, pos_outcome = o_outcome ord, pos_size = o_size ord,
      pos_entry_price = py_or_rat (o_avg_fill_price ord) (o_limit_price ord),
      pos_current_price = py_or_rat (o_avg_fill_price ord) (o_limit_price ord),
      pos_unrealized_pnl = 0, pos_realized_pnl = 0, pos_status = OPEN,
      pos_opened_at = env_now env, pos_closed_at = None, pos_entry_order_id = o_id ord,
      pos_exit_order_id = None\<rparr>"

definition open_trade ::
  "env \<Rightarrow> goal_event \<Rightarrow> match \<Rightarrow> order \<Rightarrow> position \<Rightarrow> order_intent \<Rightarrow> trade" where
  "open_trade env goal m ord p approved_intent =
     \<lparr>tr_id = env_trade_id env, tr_match_id = m_id m, tr_match_name = m_display_name m,
      tr_market_id = o_market_id ord, tr_exchange = o_exchange ord,
      tr_outcome = o_outcome ord, tr_entry_price = pos_entry_price p, tr_exit_price = None,
      tr_size = o_size ord, tr_pnl = 0, tr_pnl_pct = 0, tr_entry_time = env_now env,
      tr_exit_time = None, tr_goal_event_id = ge_id goal,
      tr_reason = oi_reason approved_intent\<rparr>"

definition record_fill ::
  "env \<Rightarrow> goal_event \<Rightarrow> match \<Rightarrow> order \<Rightarrow> order_intent \<Rightarrow> pipeline
     \<Rightarrow> trade option \<times> pipeline" where
  "record_fill env goal m ord approved_intent pl =
     (let pl = pl\<lparr>p_risk := record_success (p_risk pl)\<rparr>;
          p = open_position env m ord;
          pl = pl\<lparr>p_state := sm_add_position p (p_state pl),
                  p_risk := add_position p (p_risk pl)\<rparr>;
          t = open_trade env goal m ord p approved_intent;
          pl = pl\<lparr>p_state := record_latency 0 (add_trade t (p_state pl))\<rparr>
      in (Some t, pl))"

definition execute_approved ::
  "env \<Rightarrow> goal_event \<Rightarrow> match \<Rightarrow> order_intent \<Rightarrow> pipeline \<Rightarrow> trade option \<times> pipeline" where
  "execute_approved env goal m approved_intent pl =
     (let ((ord, exec_message), ex) =
            execute (env_exchange env) (env_order_id env) (env_now env) (env_now env)
              approved_intent (p_executor pl);
          pl = pl\<lparr>p_executor := ex\<rparr>
      in case ord of
           None \<Rightarrow>
             (None, pl\<lparr>p_risk := record_error (message_text exec_message) (p_risk pl)\<rparr>)
         | Some ord \<Rightarrow>
             (if o_status ord = REJECTED \<or> o_status ord = CANCELLED
              then (None,
                    pl\<lparr>p_risk := record_error (message_text exec_message) (p_risk pl)\<rparr>)
              else record_fill env goal m ord approved_intent pl))"

definition process_goal ::
  "env \<Rightarrow> goal_event \<Rightarrow> match \<Rightarrow> pipeline \<Rightarrow> trade option \<times> pipeline" where
  "process_goal env goal m pl0 =
     (case (case get_mapping (p_state pl0) (m_id m) of
              Some mp \<Rightarrow> Inr (mp, pl0)
            | None \<Rightarrow>
                (case env_create_mapping env m of
                   Inl e \<Rightarrow> Inl e
                 | Inr mp \<Rightarrow>
                     Inr (mp, pl0\<lparr>p_state := set_mapping (m_id m) mp (p_state pl0)\<rparr>))) of
        Inl e \<Rightarrow> (None, pl0\<lparr>p_risk := record_error (error_text e) (p_risk pl0)\<rparr>)
      | Inr (mapping, pl) \<Rightarrow>
          (if mm_markets mapping = [] then (None, pl)
           else case evaluate_goal (p_engine pl) (env_intent_id env) goal m mapping of
                  Inl e \<Rightarrow>
                    (None, pl\<lparr>p_risk := record_error (error_text e) (p_risk pl)\<rparr>)
                | Inr None \<Rightarrow> (None, pl)
                | Inr (Some intent) \<Rightarrow>
                    (let ((approved, risk_reason), rm) =
                           approve_trade (env_today env) intent (p_risk pl);
                         pl = pl\<lparr>p_risk := rm\<rparr>
                     in case approved of
                          None \<Rightarrow> (None, pl)
                        | Some approved_intent \<Rightarrow>
                            (if \<not> p_enabled pl then (None, pl)
                             else execute_approved env goal m approved_intent pl))))"

fun update_first :: "('a \<Rightarrow> bool) \<Rightarrow> ('a \<Rightarrow> 'a) \<Rightarrow> 'a list \<Rightarrow> 'a list" where
  "update_first P f [] = []"
| "update_first P f (x # xs) = (if P x then f x # xs else x # update_first P f xs)"

definition finalize_trade :: "timestamp \<Rightarrow> rat \<Rightarrow> rat \<Rightarrow> trade \<Rightarrow> trade" where
  "finalize_trade now exit_price realized t =
     t\<lparr>tr_exit_price := Some exit_price, tr_exit_time := Some now, tr_pnl := realized,
       tr_pnl_pct := (if 0 < tr_entry_price t
                      then (exit_price - tr_entry_price t) / tr_entry_price t * 100
                      else 0)\<rparr>"

text \<open>
  The loop over \<open>get_trades()\<close>, that is over the last hundred trades: the first one of
  the position's match that has no exit time is finalized.
\<close>

definition update_open_trade ::
  "timestamp \<Rightarrow> int \<Rightarrow> rat \<Rightarrow> rat \<Rightarrow> trade list \<Rightarrow> trade list" where
  "update_open_trade now match_id exit_price realized ts =
     take (length ts - 100) ts
       @ update_first (\<lambda>t. tr_match_id t = match_id \<and> tr_exit_time t = None)
           (finalize_trade now exit_price realized) (last_n 100 ts)"

definition close_intent :: "env \<Rightarrow> position \<Rightarrow> string \<Rightarrow> order_intent" where
  "close_intent env p reason =
     \<lparr>oi_id = env_intent_id env, oi_match_id = pos_match_id p,
      oi_market_id = pos_market_id p, oi_exchange = pos_exchange p, oi_side = SELL,
      oi_outcome = pos_outcome p, oi_size = pos_size p,
      oi_limit_price = pos_current_price p - 2 / 100, oi_reason = ClosePosition reason,
      oi_goal_event_id = ''''\<rparr>"

definition ts_close_position ::
  "env \<Rightarrow> string \<Rightarrow> string \<Rightarrow> pipeline \<Rightarrow> position option \<times> pipeline" where
  "ts_close_position env position_id reason pl0 =
     (case get_position (p_state pl0) position_id of
        None \<Rightarrow> (None, pl0)
      | Some p \<Rightarrow>
          (let ((ord, message), ex) =
                 execute (env_exchange env) (env_order_id env) (env_now env) (env_now env)
                   (close_intent env p reason) (p_executor pl0);
               pl = pl0\<lparr>p_executor := ex\<rparr>
           in case ord of
                None \<Rightarrow> (None, pl)
              | Some ord \<Rightarrow>
                  (if o_status ord = REJECTED then (None, pl)
                   else let exit_price = py_or_rat (o_avg_fill_price ord) (pos_current_price p);
                            (closed, sm) =
                              sm_close_position (env_now env) position_id exit_price
                                (o_id ord) (p_state pl)
                        in case closed of
                             None \<Rightarrow> (None, pl\<lparr>p_state := sm\<rparr>)
                           | Some c \<Rightarrow>
                               (Some c,
                                pl\<lparr>p_state :=
                                     sm\<lparr>trades :=
                                          update_open_trade (env_now env) (pos_match_id p)
                                            exit_price (pos_realized_pnl c) (trades sm)\<rparr>,
                                   p_risk :=
                                     record_trade_result (env_today env) (pos_match_id p)
                                       (pos_realized_pnl c) (- pos_size p) (p_risk pl)\<rparr>))))"

text \<open>
  \<open>check_exit_conditions\<close>: the test made on one position, and the sweep over the
  positions open when it starts, each close with its own environment.
\<close>

definition exit_trigger :: "settings \<Rightarrow> timestamp \<Rightarrow> position \<Rightarrow> string option" where
  "exit_trigger st now p =
     (let pnl_pct = (if 0 < pos_entry_price p
                     then (pos_current_price p - pos_entry_price p) / pos_entry_price p
                     else 0)
      in if st_take_profit_pct st \<le> pnl_pct then Some ''take_profit''
         else if pnl_pct \<le> - st_stop_loss_pct st then Some ''stop_loss''
         else if 90 < minutes_between now (pos_opened_at p) then Some ''time_exit''
         else None)"

fun check_exit_loop :: "settings \<Rightarrow> (position \<times> env) list \<Rightarrow> pipeline \<Rightarrow> pipeline" where
  "check_exit_loop st [] pl = pl"
| "check_exit_loop st ((p, env) # rest) pl =
     (case exit_trigger st (env_now env) p of
        None \<Rightarrow> check_exit_loop st rest pl
      | Some reason \<Rightarrow>
          check_exit_loop st rest (snd (ts_close_position env (pos_id p) reason pl)))"

definition check_exit_conditions :: "settings \<Rightarrow> env list \<Rightarrow> pipeline \<Rightarrow> pipeline" where
  "check_exit_conditions st envs pl =
     check_exit_loop st (zip (sm_get_open_positions (p_state pl)) envs) pl"

section \<open>Goal listener (services/goal\_listener.py)\<close>

text \<open>
  The body of the poll loop for the goals detected in one poll, with \<open>process_goal\<close>
  as the registered callback.
\<close>

definition listener_step :: "env \<Rightarrow> goal_event \<Rightarrow> pipeline \<Rightarrow> pipeline" where
  "listener_step env goal pl =
     (if is_goal_processed (p_state pl) (ge_id goal) then pl
      else case get_match (p_state pl) (ge_match_id goal) of
             None \<Rightarrow> pl
           | Some m \<Rightarrow>
               snd (process_goal env goal m
                      (pl\<lparr>p_state := mark_goal_processed goal (p_state pl)\<rparr>)))"

fun listener_dispatch :: "(goal_event \<times> env) list \<Rightarrow> pipeline \<Rightarrow> pipeline" where
  "listener_dispatch [] pl = pl"
| "listener_dispatch ((goal, env) # rest) pl =
     listener_dispatch rest (listener_step env goal pl)"

text \<open>Sample ledger entries, an exchange that fills at a given price, and a pipeline.\<close>

definition sample_position :: position where
  "sample_position =
     \<lparr>pos_id = ''pos-2'', pos_match_id = 12345, pos_market_id = ''TEST-MKT'',
      pos_exchange = ''kalshi'', pos_outcome = ''yes'', pos_size = 50,
      pos_entry_price = 30 / 100, pos_current_price = 30 / 100, pos_unrealized_pnl = 0,
      pos_realized_pnl = 0, pos_status = OPEN, pos_opened_at = 0, pos_closed_at = None,
      pos_entry_order_id = ''order-2'', pos_exit_order_id = None\<rparr>"

definition sample_trade :: trade where
  "sample_trade =
     \<lparr>tr_id = ''trade-1'', tr_match_id = 12345, tr_match_name = ''Arsenal vs Brentford'',
      tr_market_id = ''TEST-MKT'', tr_exchange = ''kalshi'', tr_outcome = ''yes'',
      tr_entry_price = 30 / 100, tr_exit_price = None, tr_size = 50, tr_pnl = 0,
      tr_pnl_pct = 0, tr_entry_time = 0, tr_exit_time = None,
      tr_goal_event_id = ''goal-1'', tr_reason = GivenReason ''Test trade''\<rparr>"

definition empty_state :: state_manager where
  "empty_state =
     \<lparr>matches = [], match_mappings = [], processed_goals = {}, goal_history = [],
      sm_open_positions = [], closed_positions = [], trades = [], latencies = []\<rparr>"

definition state_with_position :: state_manager where
  "state_with_position =
     empty_state\<lparr>sm_open_positions := [(''pos-2'', sample_position)],
                  trades := [sample_trade]\<rparr>"

definition filling_exchange :: "rat \<Rightarrow> exchange" where
  "filling_exchange price rq =
     Response \<lparr>resp_order_id = Some ''K-1'', resp_status = Some ''filled'',
               resp_avg_price = Some price\<rparr>"

definition closing_env :: env where
  "closing_env =
     \<lparr>env_today = 7, env_now = 1, env_intent_id = ''intent-9'',
      env_order_id = ''exit-order'', env_position_id = ''pos-9'', env_trade_id = ''trade-9'',
      env_exchange = filling_exchange (40 / 100),
      env_create_mapping = (\<lambda>m. Inl (Fault ''no mapper''))\<rparr>"

definition pipeline_with_position :: pipeline where
  "pipeline_with_position =
     \<lparr>p_engine = default_decision_engine, p_state = state_with_position,
      p_risk = default_risk_manager 7, p_executor = empty_executor, p_enabled = True\<rparr>"



text \<open>Positions in profit and in loss, a ledger whose match has finished, a late clock.\<close>

definition winning_position :: position where
  "winning_position = sample_position\<lparr>pos_current_price := 36 / 100\<rparr>"

definition losing_position :: position where
  "losing_position = sample_position\<lparr>pos_current_price := 25 / 100\<rparr>"

definition finished_state :: state_manager where
  "finished_state = empty_state\<lparr>matches := [(12345, sample_match\<lparr>m_status := FINISHED\<rparr>)]\<rparr>"

definition hundred_minutes :: timestamp where
  "hundred_minutes = 6000000000"

text \<open>An environment for one goal, and a pipeline that has already seen the sample goal.\<close>

definition goal_env :: env where
  "goal_env =
     \<lparr>env_today = 7, env_now = 1, env_intent_id = ''intent-1'', env_order_id = ''order-1'',
      env_position_id = ''pos-1'', env_trade_id = ''trade-1'',
      env_exchange = filling_exchange (37 / 100),
      env_create_mapping = (\<lambda>m. Inr sample_mapping)\<rparr>"

definition processed_pipeline :: pipeline where
  "processed_pipeline =
     \<lparr>p_engine = default_decision_engine,
      p_state = empty_state
        \<lparr>matches := [(12345, sample_match)], match_mappings := [(12345, sample_mapping)],
         processed_goals := {''12345-away-1-30''}, goal_history := [sample_goal_event]\<rparr>,
      p_risk = default_risk_manager 7, p_executor = empty_executor, p_enabled = True\<rparr>"

section \<open>Verified properties\<close>

subsection \<open>Risk manager: sizing\<close>

lemma reset_daily_idem:
  "reset_daily_if_needed today (reset_daily_if_needed today s) = reset_daily_if_needed today s"
  by (simp add: reset_daily_if_needed_def)

lemma py_round2_50: "py_round2 50 = 50" by (simp add: py_round2_def)
lemma py_round2_20: "py_round2 20 = 20" by (simp add: py_round2_def)

lemma clamp_steps:
  fixes B dr mr :: rat
  assumes "0 < dr" "0 < mr"
  shows "(if mr < (if dr < B then max 0 dr else B) then max 0 mr
          else (if dr < B then max 0 dr else B)) = min B (min dr mr)"
  using assms by (auto simp add: min_def max_def)

lemma calculate_position_size_eq:
  "calculate_position_size today i p s0 =
     (py_round2
        (if per_match_max_exposure (reset_daily_if_needed today s0)
              - dict_get (match_exposure (reset_daily_if_needed today s0)) (oi_match_id i) 0
            < (if daily_loss_limit (reset_daily_if_needed today s0)
                    + daily_pnl (reset_daily_if_needed today s0)
                  < bankroll (reset_daily_if_needed today s0)
                    * max_per_trade_pct (reset_daily_if_needed today s0)
               then max 0 (daily_loss_limit (reset_daily_if_needed today s0)
                    + daily_pnl (reset_daily_if_needed today s0))
               else bankroll (reset_daily_if_needed today s0)
                    * max_per_trade_pct (reset_daily_if_needed today s0))
         then max 0 (per_match_max_exposure (reset_daily_if_needed today s0)
              - dict_get (match_exposure (reset_daily_if_needed today s0)) (oi_match_id i) 0)
         else (if daily_loss_limit (reset_daily_if_needed today s0)
                    + daily_pnl (reset_daily_if_needed today s0)
                  < bankroll (reset_daily_if_needed today s0)
                    * max_per_trade_pct (reset_daily_if_needed today s0)
               then max 0 (daily_loss_limit (reset_daily_if_needed today s0)
                    + daily_pnl (reset_daily_if_needed today s0))
               else bankroll (reset_daily_if_needed today s0)
                    * max_per_trade_pct (reset_daily_if_needed today s0))),
      reset_daily_if_needed today s0)"
  unfolding calculate_position_size_def Let_def by (rule refl)

lemma calculate_position_size_clamped:
  assumes "s = reset_daily_if_needed today s0"
    and "- daily_loss_limit s < daily_pnl s"
    and "dict_get (match_exposure s) (oi_match_id i) 0 < per_match_max_exposure s"
  shows "calculate_position_size today i p s0 = (py_round2 (clamped_size i s), s)"
proof -
  have dr: "0 < daily_loss_limit s + daily_pnl s" using assms(2) by linarith
  have mr: "0 < per_match_max_exposure s - dict_get (match_exposure s) (oi_match_id i) 0"
    using assms(3) by linarith
  show ?thesis
    unfolding calculate_position_size_eq assms(1)[symmetric] clamped_size_def
    by (simp only: clamp_steps[OF dr mr])
qed

lemma check_trade_allowed_eq:
  "check_trade_allowed today intent s0 =
     (let s = reset_daily_if_needed today s0
      in (if circuit_breaker_active s then (False, CircuitBreakerActive (consecutive_errors s))
          else if daily_pnl s \<le> - daily_loss_limit s then (False, DailyLossLimitReached (daily_pnl s))
          else if per_match_max_exposure s \<le> dict_get (match_exposure s) (oi_match_id intent) 0
          then (False, PerMatchExposureLimitReached (dict_get (match_exposure s) (oi_match_id intent) 0))
          else if py_round2 (clamped_size intent s) < 1
          then (False, PositionSizeTooSmall (py_round2 (clamped_size intent s)))
          else (True, TradeAllowed), s))"
proof -
  define s where "s = reset_daily_if_needed today s0"
  have idem: "reset_daily_if_needed today s = s" by (simp add: s_def reset_daily_idem)
  show ?thesis
  proof (cases "circuit_breaker_active s \<or> daily_pnl s \<le> - daily_loss_limit s
       \<or> per_match_max_exposure s \<le> dict_get (match_exposure s) (oi_match_id intent) 0")
    case True
    then show ?thesis
      unfolding check_trade_allowed_def s_def[symmetric] Let_def by auto
  next
    case False
    then have c: "calculate_position_size today intent (oi_limit_price intent) s
        = (py_round2 (clamped_size intent s), s)"
      using calculate_position_size_clamped[of s today s intent] idem by simp
    from False show ?thesis
      unfolding check_trade_allowed_def s_def[symmetric] Let_def c by simp
  qed
qed

lemma approve_trade_eq:
  "approve_trade today intent s0 =
     (let s = reset_daily_if_needed today s0
      in (if circuit_breaker_active s then (None, CircuitBreakerActive (consecutive_errors s))
          else if daily_pnl s \<le> - daily_loss_limit s then (None, DailyLossLimitReached (daily_pnl s))
          else if per_match_max_exposure s \<le> dict_get (match_exposure s) (oi_match_id intent) 0
          then (None, PerMatchExposureLimitReached (dict_get (match_exposure s) (oi_match_id intent) 0))
          else if py_round2 (clamped_size intent s) < 1
          then (None, PositionSizeTooSmall (py_round2 (clamped_size intent s)))
          else (Some (intent\<lparr>oi_size := py_round2 (clamped_size intent s)\<rparr>),
                ApprovedWithSize (py_round2 (clamped_size intent s))), s))"
proof -
  define s where "s = reset_daily_if_needed today s0"
  have idem: "reset_daily_if_needed today s = s" by (simp add: s_def reset_daily_idem)
  show ?thesis
  proof (cases "circuit_breaker_active s \<or> daily_pnl s \<le> - daily_loss_limit s
       \<or> per_match_max_exposure s \<le> dict_get (match_exposure s) (oi_match_id intent) 0")
    case True
    then show ?thesis
      unfolding approve_trade_def check_trade_allowed_eq s_def[symmetric] Let_def by auto
  next
    case False
    then have c: "calculate_position_size today intent (oi_limit_price intent) s
        = (py_round2 (clamped_size intent s), s)"
      using calculate_position_size_clamped[of s today s intent] idem by simp
    from False show ?thesis
      unfolding approve_trade_def check_trade_allowed_eq s_def[symmetric] Let_def
      by (simp add: c)
  qed
qed

text \<open>
  Claim C4. Whenever \<open>approve_trade\<close> returns an intent, its size is the rounded minimum
  of the bankroll fraction, the remaining daily-loss budget and the remaining per-contest
  budget. With a bankroll of 10000, a fraction of 0.5 percent, a daily loss limit of 500,
  a per-contest cap of 200, the breaker off, no daily P/L and no exposure on the contest,
  the intent comes back sized 50; with a daily P/L of -480 on the stored date it comes
  back sized 20.
\<close>

theorem approve_trade_sizing:
  "(approve_trade today intent s0 = ((Some a, r), s') \<longrightarrow>
      oi_size a = py_round2 (clamped_size intent (reset_daily_if_needed today s0)))
   \<and> (bankroll s0 = 10000 \<and> max_per_trade_pct s0 = 5 / 1000 \<and> daily_loss_limit s0 = 500
        \<and> per_match_max_exposure s0 = 200 \<and> \<not> circuit_breaker_active s0
        \<and> daily_pnl s0 = 0 \<and> dict_get (match_exposure s0) (oi_match_id intent) 0 = 0
      \<longrightarrow> fst (approve_trade today intent s0)
            = (Some (intent\<lparr>oi_size := 50\<rparr>), ApprovedWithSize 50))
   \<and> (bankroll s0 = 10000 \<and> max_per_trade_pct s0 = 5 / 1000 \<and> daily_loss_limit s0 = 500
        \<and> per_match_max_exposure s0 = 200 \<and> \<not> circuit_breaker_active s0
        \<and> daily_pnl s0 = - 480 \<and> current_date s0 = today
        \<and> dict_get (match_exposure s0) (oi_match_id intent) 0 = 0
      \<longrightarrow> fst (approve_trade today intent s0)
            = (Some (intent\<lparr>oi_size := 20\<rparr>), ApprovedWithSize 20))"
proof (intro conjI impI)
  assume "approve_trade today intent s0 = ((Some a, r), s')"
  then show "oi_size a = py_round2 (clamped_size intent (reset_daily_if_needed today s0))"
    unfolding approve_trade_eq Let_def by (auto split: if_splits)
next
  assume h: "bankroll s0 = 10000 \<and> max_per_trade_pct s0 = 5 / 1000 \<and> daily_loss_limit s0 = 500
        \<and> per_match_max_exposure s0 = 200 \<and> \<not> circuit_breaker_active s0
        \<and> daily_pnl s0 = 0 \<and> dict_get (match_exposure s0) (oi_match_id intent) 0 = 0"
  define s where "s = reset_daily_if_needed today s0"
  have f: "bankroll s = 10000" "max_per_trade_pct s = 5 / 1000" "daily_loss_limit s = 500"
    "per_match_max_exposure s = 200" "\<not> circuit_breaker_active s" "daily_pnl s = 0"
    "dict_get (match_exposure s) (oi_match_id intent) 0 = 0"
    using h by (simp_all add: s_def reset_daily_if_needed_def dict_get_def)
  have c: "clamped_size intent s = 50" by (simp add: clamped_size_def f)
  show "fst (approve_trade today intent s0) = (Some (intent\<lparr>oi_size := 50\<rparr>), ApprovedWithSize 50)"
    unfolding approve_trade_eq s_def[symmetric] Let_def by (simp add: c f py_round2_50)
next
  assume h: "bankroll s0 = 10000 \<and> max_per_trade_pct s0 = 5 / 1000 \<and> daily_loss_limit s0 = 500
        \<and> per_match_max_exposure s0 = 200 \<and> \<not> circuit_breaker_active s0
        \<and> daily_pnl s0 = - 480 \<and> current_date s0 = today
        \<and> dict_get (match_exposure s0) (oi_match_id intent) 0 = 0"
  define s where "s = reset_daily_if_needed today s0"
  have "s = s0" using h by (simp add: s_def reset_daily_if_needed_def)
  then have f: "bankroll s = 10000" "max_per_trade_pct s = 5 / 1000" "daily_loss_limit s = 500"
    "per_match_max_exposure s = 200" "\<not> circuit_breaker_active s" "daily_pnl s = - 480"
    "dict_get (match_exposure s) (oi_match_id intent) 0 = 0"
    using h by simp_all
  have c: "clamped_size intent s = 20" by (simp add: clamped_size_def f)
  show "fst (approve_trade today intent s0) = (Some (intent\<lparr>oi_size := 20\<rparr>), ApprovedWithSize 20)"
    unfolding approve_trade_eq s_def[symmetric] Let_def by (simp add: c f py_round2_20)
qed

theorem approve_trade_sizing_witness:
  "fst (approve_trade 7 sample_order_intent (default_risk_manager 7))
     = (Some (sample_order_intent\<lparr>oi_size := 50\<rparr>), ApprovedWithSize 50)
   \<and> fst (approve_trade 7 sample_order_intent ((default_risk_manager 7)\<lparr>daily_pnl := - 480\<rparr>))
     = (Some (sample_order_intent\<lparr>oi_size := 20\<rparr>), ApprovedWithSize 20)
   \<and> py_round2 (clamped_size sample_order_intent
          (reset_daily_if_needed 7 ((default_risk_manager 7)\<lparr>daily_pnl := - 480\<rparr>))) = 20"
proof -
  define s1 where "s1 = (default_risk_manager 7)\<lparr>daily_pnl := - 480\<rparr>"
  define a1 where "a1 = sample_order_intent\<lparr>oi_size := 20\<rparr>"
  note t0 = approve_trade_sizing[of 7 sample_order_intent "default_risk_manager 7"
      a1 "ApprovedWithSize 20" "snd (approve_trade 7 sample_order_intent (default_risk_manager 7))"]
  note t1 = approve_trade_sizing[of 7 sample_order_intent s1
      a1 "ApprovedWithSize 20" "snd (approve_trade 7 sample_order_intent s1)"]
  have h0: "bankroll (default_risk_manager 7) = 10000 \<and> max_per_trade_pct (default_risk_manager 7) = 5 / 1000
      \<and> daily_loss_limit (default_risk_manager 7) = 500
      \<and> per_match_max_exposure (default_risk_manager 7) = 200 \<and> \<not> circuit_breaker_active (default_risk_manager 7)
      \<and> daily_pnl (default_risk_manager 7) = 0
      \<and> dict_get (match_exposure (default_risk_manager 7)) (oi_match_id sample_order_intent) 0 = 0"
    by (simp add: default_risk_manager_def dict_get_def)
  have h1: "bankroll s1 = 10000 \<and> max_per_trade_pct s1 = 5 / 1000 \<and> daily_loss_limit s1 = 500
      \<and> per_match_max_exposure s1 = 200 \<and> \<not> circuit_breaker_active s1
      \<and> daily_pnl s1 = - 480 \<and> current_date s1 = 7
      \<and> dict_get (match_exposure s1) (oi_match_id sample_order_intent) 0 = 0"
    by (simp add: s1_def default_risk_manager_def dict_get_def)
  have a: "fst (approve_trade 7 sample_order_intent (default_risk_manager 7))
     = (Some (sample_order_intent\<lparr>oi_size := 50\<rparr>), ApprovedWithSize 50)"
    using t0 h0 by blast
  have b: "fst (approve_trade 7 sample_order_intent s1) = (Some a1, ApprovedWithSize 20)"
    unfolding a1_def using t1 h1 by blast
  have "approve_trade 7 sample_order_intent s1
      = ((Some a1, ApprovedWithSize 20), snd (approve_trade 7 sample_order_intent s1))"
    using b by (simp add: prod_eq_iff)
  then have "oi_size a1 = py_round2 (clamped_size sample_order_intent (reset_daily_if_needed 7 s1))"
    using t1 by blast
  then have c: "py_round2 (clamped_size sample_order_intent (reset_daily_if_needed 7 s1)) = 20"
    by (simp add: a1_def)
  show ?thesis using a b c unfolding s1_def a1_def by blast
qed

subsection \<open>Risk manager: circuit breaker\<close>

lemma reset_daily_breaker:
  "circuit_breaker_active (reset_daily_if_needed today s) = circuit_breaker_active s"
  "consecutive_errors (reset_daily_if_needed today s) = consecutive_errors s"
  by (simp_all add: reset_daily_if_needed_def)

lemma record_error_fields:
  "consecutive_errors (record_error m s) = consecutive_errors s + 1"
  "max_consecutive_errors (record_error m s) = max_consecutive_errors s"
  "circuit_breaker_active (record_error m s) =
     (circuit_breaker_active s \<or> max_consecutive_errors s \<le> consecutive_errors s + 1)"
  by (simp_all add: record_error_def Let_def)

lemma record_errors_trips:
  "msgs \<noteq> [] \<Longrightarrow> max_consecutive_errors s \<le> consecutive_errors s + int (length msgs)
     \<Longrightarrow> circuit_breaker_active (record_errors msgs s)"
proof (induction msgs arbitrary: s)
  case Nil
  then show ?case by simp
next
  case (Cons m ms)
  show ?case
  proof (cases "ms = []")
    case True
    with Cons.prems show ?thesis by (simp add: record_error_fields)
  next
    case False
    have "max_consecutive_errors (record_error m s)
            \<le> consecutive_errors (record_error m s) + int (length ms)"
      using Cons.prems(2) by (simp add: record_error_fields)
    from Cons.IH[OF False this] show ?thesis by simp
  qed
qed

lemma get_status_flag:
  "rs_circuit_breaker_active (fst (get_status today s)) = circuit_breaker_active s"
  by (simp add: get_status_def Let_def reset_daily_breaker)

lemma approve_trade_breaker:
  "circuit_breaker_active s \<Longrightarrow> fst (fst (approve_trade today intent s)) = None"
  unfolding approve_trade_eq Let_def by (simp add: reset_daily_breaker)

lemma remove_position_flag:
  "circuit_breaker_active (snd (remove_position pid s)) = circuit_breaker_active s"
  by (simp add: remove_position_def split: prod.splits)

lemma rm_step_keeps_breaker:
  assumes act: "circuit_breaker_active s" and nr: "op \<noteq> ResetCircuitBreaker"
  shows "circuit_breaker_active (rm_step today op s)"
proof (cases op)
  case GetStatus
  then show ?thesis using act nr by (simp add: get_status_def Let_def reset_daily_breaker)
next
  case (CalculatePositionSize i p)
  then show ?thesis using act nr by (simp add: calculate_position_size_eq reset_daily_breaker)
next
  case (CheckTradeAllowed i)
  then show ?thesis using act nr by (simp add: check_trade_allowed_eq Let_def reset_daily_breaker)
next
  case (ApproveTrade i)
  then show ?thesis using act nr by (simp add: approve_trade_eq Let_def reset_daily_breaker)
next
  case (RecordTradeResult m pnl e)
  then show ?thesis using act nr by (simp add: record_trade_result_def Let_def reset_daily_breaker)
next
  case (RecordError msg)
  then show ?thesis using act nr by (simp add: record_error_fields)
next
  case RecordSuccess
  then show ?thesis using act nr by (simp add: record_success_def)
next
  case ResetCircuitBreaker
  then show ?thesis using act nr by simp
next
  case (UpdateBankroll b)
  then show ?thesis using act nr by (simp add: update_bankroll_def)
next
  case (AddPosition p)
  then show ?thesis using act nr by (simp add: add_position_def)
next
  case (RemovePosition pid)
  then show ?thesis using act nr by (simp add: remove_position_flag)
next
  case GetOpenPositions
  then show ?thesis using act nr by simp
qed

text \<open>The error counter starts at zero and no operation makes it negative.\<close>

lemma rm_step_counter_nonneg:
  assumes "0 \<le> consecutive_errors s"
  shows "0 \<le> consecutive_errors (rm_step today op s)"
proof (cases op)
  case GetStatus
  then show ?thesis using assms by (simp add: get_status_def Let_def reset_daily_breaker)
next
  case (CalculatePositionSize i p)
  then show ?thesis using assms by (simp add: calculate_position_size_eq reset_daily_breaker)
next
  case (CheckTradeAllowed i)
  then show ?thesis using assms by (simp add: check_trade_allowed_eq Let_def reset_daily_breaker)
next
  case (ApproveTrade i)
  then show ?thesis using assms by (simp add: approve_trade_eq Let_def reset_daily_breaker)
next
  case (RecordTradeResult m pnl e)
  then show ?thesis using assms
    by (simp add: record_trade_result_def Let_def reset_daily_breaker)
next
  case (RecordError msg)
  then show ?thesis using assms by (simp add: record_error_fields)
next
  case RecordSuccess
  then show ?thesis by (simp add: record_success_def)
next
  case ResetCircuitBreaker
  then show ?thesis by (simp add: reset_circuit_breaker_def)
next
  case (UpdateBankroll b)
  then show ?thesis using assms by (simp add: update_bankroll_def)
next
  case (AddPosition p)
  then show ?thesis using assms by (simp add: add_position_def)
next
  case (RemovePosition pid)
  then show ?thesis using assms by (simp add: remove_position_def split: prod.splits)
next
  case GetOpenPositions
  then show ?thesis using assms by simp
qed

text \<open>
  Claim C5. After as many \<open>record_error\<close> calls in a row as the threshold (at least one),
  the status reports the breaker active; \<open>record_success\<close> zeroes the error counter and
  leaves the breaker active; while it is active \<open>approve_trade\<close> returns no intent; and
  no operation of the risk manager other than \<open>reset_circuit_breaker\<close> clears it.
\<close>

theorem circuit_breaker_semantics:
  "(msgs \<noteq> [] \<and> 0 \<le> consecutive_errors s \<and> max_consecutive_errors s \<le> int (length msgs)
      \<longrightarrow> rs_circuit_breaker_active (fst (get_status today (record_errors msgs s))))
   \<and> (circuit_breaker_active s
      \<longrightarrow> circuit_breaker_active (record_success s) \<and> consecutive_errors (record_success s) = 0)
   \<and> (circuit_breaker_active s \<longrightarrow> fst (fst (approve_trade today intent s)) = None)
   \<and> (circuit_breaker_active s \<and> \<not> circuit_breaker_active (rm_step today op s)
      \<longrightarrow> op = ResetCircuitBreaker)
   \<and> \<not> circuit_breaker_active (reset_circuit_breaker s)"
proof (intro conjI impI)
  assume h: "msgs \<noteq> [] \<and> 0 \<le> consecutive_errors s \<and> max_consecutive_errors s \<le> int (length msgs)"
  then have "max_consecutive_errors s \<le> consecutive_errors s + int (length msgs)" by linarith
  with h have "circuit_breaker_active (record_errors msgs s)" by (simp add: record_errors_trips)
  then show "rs_circuit_breaker_active (fst (get_status today (record_errors msgs s)))"
    by (simp add: get_status_flag)
next
  assume "circuit_breaker_active s"
  then show "circuit_breaker_active (record_success s)" by (simp add: record_success_def)
next
  show "consecutive_errors (record_success s) = 0" by (simp add: record_success_def)
next
  assume "circuit_breaker_active s"
  then show "fst (fst (approve_trade today intent s)) = None" by (rule approve_trade_breaker)
next
  assume "circuit_breaker_active s \<and> \<not> circuit_breaker_active (rm_step today op s)"
  then show "op = ResetCircuitBreaker" using rm_step_keeps_breaker by blast
next
  show "\<not> circuit_breaker_active (reset_circuit_breaker s)" by (simp add: reset_circuit_breaker_def)
qed

lemma tripped_eval:
  "circuit_breaker_active (record_errors five_errors (default_risk_manager 7))"
  by (simp add: five_errors_def default_risk_manager_def record_error_def Let_def)

theorem circuit_breaker_semantics_witness:
  "rs_circuit_breaker_active
     (fst (get_status 7 (record_errors five_errors (default_risk_manager 7))))
   \<and> circuit_breaker_active (record_success (record_errors five_errors (default_risk_manager 7)))
   \<and> consecutive_errors (record_success (record_errors five_errors (default_risk_manager 7))) = 0
   \<and> fst (fst (approve_trade 7 sample_order_intent
        (record_errors five_errors (default_risk_manager 7)))) = None
   \<and> \<not> circuit_breaker_active
        (rm_step 7 ResetCircuitBreaker (record_errors five_errors (default_risk_manager 7)))"
proof -
  define s where "s = record_errors five_errors (default_risk_manager 7)"
  have act: "circuit_breaker_active s" unfolding s_def by (rule tripped_eval)
  have h: "five_errors \<noteq> [] \<and> 0 \<le> consecutive_errors (default_risk_manager 7)
      \<and> max_consecutive_errors (default_risk_manager 7) \<le> int (length five_errors)"
    by (simp add: five_errors_def default_risk_manager_def)
  note a = circuit_breaker_semantics[where msgs = five_errors and s = "default_risk_manager 7" and today = 7]
  note b = circuit_breaker_semantics[where msgs = five_errors and s = s and today = 7 and intent = sample_order_intent and op = ResetCircuitBreaker]
  have 1: "rs_circuit_breaker_active (fst (get_status 7 s))" unfolding s_def using a h by blast
  have 2: "circuit_breaker_active (record_success s) \<and> consecutive_errors (record_success s) = 0"
    using b act by blast
  have 3: "fst (fst (approve_trade 7 sample_order_intent s)) = None" using b act by blast
  have 4: "\<not> circuit_breaker_active (rm_step 7 ResetCircuitBreaker s)" using b by simp
  show ?thesis using 1 2 3 4 unfolding s_def by blast
qed

subsection \<open>Risk manager: daily reset\<close>











subsection \<open>Order executor\<close>

lemma map_of_dict_set: "map_of (dict_set k v d) = (map_of d)(k \<mapsto> v)"
  by (induction d) (auto simp add: fun_eq_iff)

lemma keys_dict_set: "fst ` set (dict_set k v d) = insert k (fst ` set d)"
proof -
  have "fst ` set (dict_set k v d) = dom (map_of (dict_set k v d))"
    by (simp add: dom_map_of_conv_image_fst)
  also have "\<dots> = insert k (dom (map_of d))" by (simp add: map_of_dict_set)
  also have "\<dots> = insert k (fst ` set d)" by (simp add: dom_map_of_conv_image_fst)
  finally show ?thesis .
qed

lemma keys_dict_del: "fst ` set (dict_del k d) = fst ` set d - {k}"
  by (auto simp add: dict_del_def image_iff)

lemma map_of_dict_del: "map_of (dict_del k d) = (map_of d)(k := None)"
  by (induction d) (auto simp add: dict_del_def fun_eq_iff)

lemma execute_body_order_id: "o_id (snd (execute_body exch t0 t1 intent ord)) = o_id ord"
  by (simp add: execute_body_def Let_def split: exchange_outcome.splits)

lemma execute_body_result:
  "fst (fst (execute_body exch t0 t1 intent ord)) = Some o'
     \<Longrightarrow> o' = snd (execute_body exch t0 t1 intent ord)"
  by (auto simp add: execute_body_def Let_def split: exchange_outcome.splits if_splits)

lemma execute_eq:
  "execute exch oid t0 t1 intent ex =
     (fst (execute_body exch t0 t1 intent (new_order oid intent)),
      ex\<lparr>pending_orders := dict_del oid (dict_set oid (new_order oid intent) (pending_orders ex)),
         completed_orders := completed_orders ex
             @ [snd (execute_body exch t0 t1 intent (new_order oid intent))]\<rparr>)"
proof -
  have i: "o_id (snd (execute_body exch t0 t1 intent (new_order oid intent))) = oid"
    by (simp add: execute_body_order_id new_order_def)
  show ?thesis
    unfolding execute_def Let_def
    by (simp add: case_prod_beta i keys_dict_set)
qed

text \<open>
  Claim C9. When the intent names the exchange \<open>kalshi\<close> and the submission raises a
  fault with message \<open>e\<close>, \<open>execute\<close> returns the order with status rejected and
  error message \<open>e\<close>, together with the text \<open>Execution error: e\<close>; the result is an
  ordinary value, and the rejected order is filed under the completed orders.
\<close>

theorem execute_captures_fault:
  assumes "oi_exchange intent = ''kalshi''"
    and "execute_kalshi exch intent (new_order oid intent) = Raised e"
  shows "fst (execute exch oid t0 t1 intent ex)
           = (Some ((new_order oid intent)\<lparr>o_status := REJECTED, o_error_message := Some e\<rparr>),
              ExecutionError e)
         \<and> message_text (ExecutionError e) = ''Execution error: '' @ e
         \<and> completed_orders (snd (execute exch oid t0 t1 intent ex))
           = completed_orders ex
               @ [(new_order oid intent)\<lparr>o_status := REJECTED, o_error_message := Some e\<rparr>]"
  using assms by (simp add: execute_eq execute_body_def Let_def)

text \<open>
  Claim C10. After \<open>execute\<close> the new order id is no longer among the pending orders,
  every other pending entry is as before, and the completed history has grown by exactly
  one order, the one created by this call (and the one returned, when one is). For an
  exchange other than \<open>kalshi\<close> the call returns no order and the text
  \<open>Unknown exchange\<close>, and the order appended is the untouched pending one.
\<close>

theorem execute_moves_order_to_completed:
  "oid \<notin> fst ` set (pending_orders (snd (execute exch oid t0 t1 intent ex)))
   \<and> (\<forall>k. k \<noteq> oid \<longrightarrow>
         map_of (pending_orders (snd (execute exch oid t0 t1 intent ex))) k
           = map_of (pending_orders ex) k)
   \<and> (\<exists>ord. completed_orders (snd (execute exch oid t0 t1 intent ex))
                = completed_orders ex @ [ord]
            \<and> o_id ord = oid
            \<and> (\<forall>o'. fst (fst (execute exch oid t0 t1 intent ex)) = Some o' \<longrightarrow> o' = ord)
            \<and> (oi_exchange intent \<noteq> ''kalshi'' \<longrightarrow>
                  fst (execute exch oid t0 t1 intent ex)
                    = (None, UnknownExchange (oi_exchange intent))
                  \<and> ord = new_order oid intent \<and> o_status ord = PENDING))"
proof (intro conjI allI impI)
  show "oid \<notin> fst ` set (pending_orders (snd (execute exch oid t0 t1 intent ex)))"
    by (simp add: execute_eq keys_dict_del)
next
  fix k :: string
  assume "k \<noteq> oid"
  then show "map_of (pending_orders (snd (execute exch oid t0 t1 intent ex))) k
           = map_of (pending_orders ex) k"
    by (simp add: execute_eq map_of_dict_del map_of_dict_set)
next
  let ?ord = "snd (execute_body exch t0 t1 intent (new_order oid intent))"
  have 1: "completed_orders (snd (execute exch oid t0 t1 intent ex)) = completed_orders ex @ [?ord]"
    by (simp add: execute_eq)
  have 2: "o_id ?ord = oid" by (simp add: execute_body_order_id new_order_def)
  have 3: "\<forall>o'. fst (fst (execute exch oid t0 t1 intent ex)) = Some o' \<longrightarrow> o' = ?ord"
    using execute_body_result by (simp add: execute_eq)
  have 4: "oi_exchange intent \<noteq> ''kalshi'' \<longrightarrow>
                  fst (execute exch oid t0 t1 intent ex)
                    = (None, UnknownExchange (oi_exchange intent))
                  \<and> ?ord = new_order oid intent \<and> o_status ?ord = PENDING"
    by (simp add: execute_eq execute_body_def new_order_def)
  show "\<exists>ord. completed_orders (snd (execute exch oid t0 t1 intent ex))
                = completed_orders ex @ [ord]
            \<and> o_id ord = oid
            \<and> (\<forall>o'. fst (fst (execute exch oid t0 t1 intent ex)) = Some o' \<longrightarrow> o' = ord)
            \<and> (oi_exchange intent \<noteq> ''kalshi'' \<longrightarrow>
                  fst (execute exch oid t0 t1 intent ex)
                    = (None, UnknownExchange (oi_exchange intent))
                  \<and> ord = new_order oid intent \<and> o_status ord = PENDING)"
    using 1 2 3 4 by blast
qed

theorem execute_captures_fault_witness:
  "fst (execute failing_exchange ''order-1'' 0 1 (sample_order_intent\<lparr>oi_size := 50\<rparr>) empty_executor)
     = (Some ((new_order ''order-1'' (sample_order_intent\<lparr>oi_size := 50\<rparr>))
               \<lparr>o_status := REJECTED, o_error_message := Some ''connection reset''\<rparr>),
        ExecutionError ''connection reset'')
   \<and> message_text (ExecutionError ''connection reset'') = ''Execution error: connection reset''"
proof -
  have 1: "oi_exchange (sample_order_intent\<lparr>oi_size := 50\<rparr>) = ''kalshi''"
    by (simp add: sample_order_intent_def)
  have 2: "execute_kalshi failing_exchange (sample_order_intent\<lparr>oi_size := 50\<rparr>)
             (new_order ''order-1'' (sample_order_intent\<lparr>oi_size := 50\<rparr>))
           = Raised ''connection reset''"
    by (simp add: execute_kalshi_def failing_exchange_def Let_def sample_order_intent_def)
  from execute_captures_fault[OF 1 2, of 0 1 empty_executor] show ?thesis by simp
qed

theorem execute_moves_order_to_completed_witness:
  "fst (execute failing_exchange ''order-1'' 0 1 unknown_exchange_intent empty_executor)
     = (None, UnknownExchange ''polymarket'')
   \<and> completed_orders
        (snd (execute failing_exchange ''order-1'' 0 1 unknown_exchange_intent empty_executor))
     = [new_order ''order-1'' unknown_exchange_intent]
   \<and> o_status (new_order ''order-1'' unknown_exchange_intent) = PENDING
   \<and> ''order-1'' \<notin> fst ` set (pending_orders
        (snd (execute failing_exchange ''order-1'' 0 1 unknown_exchange_intent empty_executor)))"
proof -
  have x: "oi_exchange unknown_exchange_intent = ''polymarket''"
    by (simp add: unknown_exchange_intent_def)
  then have ne: "oi_exchange unknown_exchange_intent \<noteq> ''kalshi''" by simp
  have c: "completed_orders empty_executor = []" by (simp add: empty_executor_def)
  from execute_moves_order_to_completed[of "''order-1''" failing_exchange 0 1
      unknown_exchange_intent empty_executor]
  show ?thesis using ne x c by auto
qed

subsection \<open>Exit priority\<close>

lemma check_take_profit_iff:
  "check_take_profit ptm p = (take_profit_pct ptm * 100 \<le> snd (calculate_unrealized_pnl p))"
  by (simp add: check_take_profit_def Let_def)

lemma check_stop_loss_iff:
  "check_stop_loss ptm p = (snd (calculate_unrealized_pnl p) \<le> - stop_loss_pct ptm * 100)"
  by (simp add: check_stop_loss_def Let_def)

lemma check_time_exit_iff:
  "check_time_exit ptm now p
     = (max_position_time_mins ptm \<le> minutes_between now (pos_opened_at p))"
  by (simp add: check_time_exit_def Let_def)

lemma check_match_ended_iff:
  "check_match_ended sm p =
     (case get_match sm (pos_match_id p) of
        None \<Rightarrow> False
      | Some m \<Rightarrow> m_status m \<in> {FINISHED, MS_CANCELLED, ABANDONED, POSTPONED})"
  by (simp add: check_match_ended_def split: option.splits)

text \<open>
  Claim C8. \<open>get_exit_reason\<close> returns the reason of the first condition that holds in
  the order take-profit, stop-loss, time-exit, contest-ended, and nothing when none holds;
  in particular take-profit wins whenever it holds, whatever else holds with it.
\<close>

theorem exit_reason_priority:
  "get_exit_reason ptm now sm p = first_true (exit_conditions ptm now sm p)
   \<and> (check_take_profit ptm p \<longrightarrow> get_exit_reason ptm now sm p = Some ''take_profit'')
   \<and> (\<not> check_take_profit ptm p \<and> check_stop_loss ptm p
        \<longrightarrow> get_exit_reason ptm now sm p = Some ''stop_loss'')
   \<and> (\<not> check_take_profit ptm p \<and> \<not> check_stop_loss ptm p \<and> check_time_exit ptm now p
        \<longrightarrow> get_exit_reason ptm now sm p = Some ''time_exit'')
   \<and> (\<not> check_take_profit ptm p \<and> \<not> check_stop_loss ptm p \<and> \<not> check_time_exit ptm now p
        \<and> check_match_ended sm p
        \<longrightarrow> get_exit_reason ptm now sm p = Some ''match_ended'')
   \<and> (\<not> check_take_profit ptm p \<and> \<not> check_stop_loss ptm p \<and> \<not> check_time_exit ptm now p
        \<and> \<not> check_match_ended sm p
        \<longrightarrow> get_exit_reason ptm now sm p = None)"
proof -
  have "get_exit_reason ptm now sm p = first_true (exit_conditions ptm now sm p)"
    unfolding get_exit_reason_def first_true_def exit_conditions_def
      check_take_profit_iff check_stop_loss_iff check_time_exit_iff check_match_ended_iff
    by simp
  then show ?thesis by (simp add: get_exit_reason_def)
qed

subsection \<open>Decision engine\<close>

lemma is_underdog_Some:
  assumes "snd (is_underdog eng tid m mapping) = Some pr"
  shows "is_underdog eng tid m mapping = (pr < underdog_threshold eng, Some pr)"
  using assms by (auto simp add: is_underdog_def Let_def split: option.splits if_splits)

lemma evaluate_goal_not_underdog:
  assumes "\<not> fst (is_underdog eng (ge_scoring_team_id goal) m mapping)"
  shows "evaluate_goal eng uuid goal m mapping = Inr None"
  using assms by (simp add: evaluate_goal_def case_prod_beta)

lemma evaluate_goal_passes:
  assumes u: "fst (is_underdog eng (ge_scoring_team_id goal) m mapping)"
    and f: "find_best_market eng (ge_scoring_team_id goal) m mapping = Inr (Some mk)"
    and v: "fst (check_value eng mk (snd (is_underdog eng (ge_scoring_team_id goal) m mapping)))"
    and l: "fst (check_liquidity eng mk)"
    and t: "fst (check_time_remaining eng m goal)"
  shows "evaluate_goal eng uuid goal m mapping =
           Inr (Some \<lparr>oi_id = uuid, oi_match_id = m_id m, oi_market_id = mk_id mk,
                      oi_exchange = mk_exchange mk, oi_side = BUY, oi_outcome = ''yes'',
                      oi_size = 0, oi_limit_price = mk_yes_price mk + 2 / 100,
                      oi_reason =
                        UnderdogScored (ge_scoring_team_name goal)
                          (snd (is_underdog eng (ge_scoring_team_id goal) m mapping))
                          (snd (check_value eng mk
                             (snd (is_underdog eng (ge_scoring_team_id goal) m mapping))))
                          (snd (check_liquidity eng mk))
                          (snd (check_time_remaining eng m goal)),
                      oi_goal_event_id = ge_id goal\<rparr>)"
  using u f v l t by (simp add: evaluate_goal_def case_prod_beta)

lemma sample_is_underdog:
  "is_underdog default_decision_engine 2 sample_match sample_mapping = (True, Some (35 / 100))"
  by (simp add: is_underdog_def default_decision_engine_def sample_match_def sample_mapping_def)

lemma sample_title_matches:
  "title_matches (py_lower ''Liverpool'') (py_lower (mk_title sample_market)) = Inr True"
  by (simp add: title_matches_def sample_market_def py_lower_def char_lower_def)

lemma sample_market_score: "market_score 100 sample_market = 5"
  by (simp add: market_score_def sample_market_def py_lower_def char_lower_def)

lemma sample_find_best_market:
  "find_best_market default_decision_engine 2 sample_match sample_mapping
     = Inr (Some sample_market)"
proof -
  have "find_best_loop 100 ''Liverpool'' [sample_market] None 0 = Inr (Some sample_market)"
    by (simp add: sample_title_matches sample_market_score)
  then show ?thesis
    by (simp add: find_best_market_def default_decision_engine_def sample_match_def
        sample_mapping_def)
qed

text \<open>
  A goal in minute 80 by the away side of the test fixtures: the scoring side has a
  pre-goal probability of 0.35 and its market quotes 0.35, yet the evaluator returns no
  intent, because fewer than 15 minutes remain.
\<close>

theorem evaluate_goal_counterexample:
  "snd (is_underdog default_decision_engine (ge_scoring_team_id late_goal_event)
         sample_match sample_mapping) = Some (35 / 100)
   \<and> find_best_market default_decision_engine (ge_scoring_team_id late_goal_event)
         sample_match sample_mapping = Inr (Some sample_market)
   \<and> mk_yes_price sample_market = 35 / 100
   \<and> evaluate_goal default_decision_engine ''intent-1'' late_goal_event sample_match
         sample_mapping = Inr None"
proof -
  have g: "ge_scoring_team_id late_goal_event = 2"
    by (simp add: late_goal_event_def sample_goal_event_def)
  have t: "\<not> fst (check_time_remaining default_decision_engine sample_match late_goal_event)"
    by (simp add: check_time_remaining_def late_goal_event_def py_or_int_def
        default_decision_engine_def)
  have e: "evaluate_goal default_decision_engine ''intent-1'' late_goal_event sample_match
         sample_mapping = Inr None"
    using t
    by (simp add: evaluate_goal_def g sample_is_underdog sample_find_best_market
        case_prod_beta)
  show ?thesis
    using e by (simp add: g sample_is_underdog sample_find_best_market sample_market_def)
qed

text \<open>
  Claim C6, as amended. Under the thresholds 0.5 (underdog) and 0.65 (price ceiling): when
  the scoring side has a pre-goal probability of 0.35, the market found for it quotes 0.35,
  its two-sided volume reaches the minimum liquidity and the time left reaches the minimum,
  \<open>evaluate_goal\<close> returns an intent (buy, outcome yes, size 0, limit 0.37); when the
  scoring side has a pre-goal probability of 0.65 it returns \<open>None\<close>.
\<close>

theorem evaluate_goal_underdog:
  "(underdog_threshold eng = 1 / 2 \<and> max_price_after_goal eng = 65 / 100
      \<and> snd (is_underdog eng (ge_scoring_team_id goal) m mapping) = Some (35 / 100)
      \<and> find_best_market eng (ge_scoring_team_id goal) m mapping = Inr (Some mk)
      \<and> mk_yes_price mk = 35 / 100
      \<and> min_liquidity eng \<le> mk_yes_volume mk + mk_no_volume mk
      \<and> min_time_remaining eng \<le> 90 - py_or_int (ge_minute goal) (py_or_int (m_minute m) 0)
      \<longrightarrow> (\<exists>intent. evaluate_goal eng uuid goal m mapping = Inr (Some intent)
             \<and> oi_market_id intent = mk_id mk \<and> oi_side intent = BUY
             \<and> oi_outcome intent = ''yes'' \<and> oi_size intent = 0
             \<and> oi_limit_price intent = 37 / 100))
   \<and> (underdog_threshold eng = 1 / 2
      \<and> snd (is_underdog eng (ge_scoring_team_id goal) m mapping) = Some (65 / 100)
      \<longrightarrow> evaluate_goal eng uuid goal m mapping = Inr None)"
proof (intro conjI impI)
  assume h: "underdog_threshold eng = 1 / 2 \<and> max_price_after_goal eng = 65 / 100
      \<and> snd (is_underdog eng (ge_scoring_team_id goal) m mapping) = Some (35 / 100)
      \<and> find_best_market eng (ge_scoring_team_id goal) m mapping = Inr (Some mk)
      \<and> mk_yes_price mk = 35 / 100
      \<and> min_liquidity eng \<le> mk_yes_volume mk + mk_no_volume mk
      \<and> min_time_remaining eng \<le> 90 - py_or_int (ge_minute goal) (py_or_int (m_minute m) 0)"
  then have iu: "is_underdog eng (ge_scoring_team_id goal) m mapping = (True, Some (35 / 100))"
    using is_underdog_Some[of eng "ge_scoring_team_id goal" m mapping "35 / 100"] by simp
  have u: "fst (is_underdog eng (ge_scoring_team_id goal) m mapping)" by (simp add: iu)
  have v: "fst (check_value eng mk (snd (is_underdog eng (ge_scoring_team_id goal) m mapping)))"
    using h by (simp add: iu check_value_def Let_def)
  have l: "fst (check_liquidity eng mk)" using h by (simp add: check_liquidity_def Let_def)
  have t: "fst (check_time_remaining eng m goal)"
    using h by (simp add: check_time_remaining_def Let_def)
  from h have f: "find_best_market eng (ge_scoring_team_id goal) m mapping = Inr (Some mk)"
    by simp
  from evaluate_goal_passes[OF u f v l t, of uuid] h
  show "\<exists>intent. evaluate_goal eng uuid goal m mapping = Inr (Some intent)
             \<and> oi_market_id intent = mk_id mk \<and> oi_side intent = BUY
             \<and> oi_outcome intent = ''yes'' \<and> oi_size intent = 0
             \<and> oi_limit_price intent = 37 / 100"
    by simp
next
  assume h: "underdog_threshold eng = 1 / 2
      \<and> snd (is_underdog eng (ge_scoring_team_id goal) m mapping) = Some (65 / 100)"
  then have "is_underdog eng (ge_scoring_team_id goal) m mapping = (False, Some (65 / 100))"
    using is_underdog_Some[of eng "ge_scoring_team_id goal" m mapping "65 / 100"] by simp
  then show "evaluate_goal eng uuid goal m mapping = Inr None"
    by (simp add: evaluate_goal_not_underdog)
qed

theorem evaluate_goal_underdog_witness:
  "(\<exists>intent. evaluate_goal default_decision_engine ''intent-1'' sample_goal_event sample_match
        sample_mapping = Inr (Some intent)
      \<and> oi_market_id intent = ''SOCCER-EPL-MUFC-LIV-WIN'' \<and> oi_side intent = BUY
      \<and> oi_outcome intent = ''yes'' \<and> oi_size intent = 0
      \<and> oi_limit_price intent = 37 / 100)
   \<and> evaluate_goal default_decision_engine ''intent-1'' sample_goal_event sample_match
        favourite_mapping = Inr None"
proof -
  have g: "ge_scoring_team_id sample_goal_event = 2" by (simp add: sample_goal_event_def)
  have e: "underdog_threshold default_decision_engine = 1 / 2"
    "max_price_after_goal default_decision_engine = 65 / 100"
    "min_liquidity default_decision_engine = 100"
    "min_time_remaining default_decision_engine = 15"
    by (simp_all add: default_decision_engine_def)
  have mk: "mk_yes_price sample_market = 35 / 100"
    "mk_yes_volume sample_market + mk_no_volume sample_market = 8000"
    "mk_id sample_market = ''SOCCER-EPL-MUFC-LIV-WIN''"
    by (simp_all add: sample_market_def)
  have mi: "py_or_int (ge_minute sample_goal_event) (py_or_int (m_minute sample_match) 0) = 30"
    by (simp add: py_or_int_def sample_goal_event_def)
  have fav: "snd (is_underdog default_decision_engine 2 sample_match favourite_mapping)
      = Some (65 / 100)"
    by (simp add: is_underdog_def default_decision_engine_def sample_match_def
        favourite_mapping_def)
  note a = evaluate_goal_underdog[where eng = default_decision_engine and goal = sample_goal_event
      and m = sample_match and mapping = sample_mapping and mk = sample_market
      and uuid = "''intent-1''"]
  note b = evaluate_goal_underdog[where eng = default_decision_engine and goal = sample_goal_event
      and m = sample_match and mapping = favourite_mapping and mk = sample_market
      and uuid = "''intent-1''"]
  have 1: "\<exists>intent. evaluate_goal default_decision_engine ''intent-1'' sample_goal_event sample_match
        sample_mapping = Inr (Some intent)
      \<and> oi_market_id intent = ''SOCCER-EPL-MUFC-LIV-WIN'' \<and> oi_side intent = BUY
      \<and> oi_outcome intent = ''yes'' \<and> oi_size intent = 0
      \<and> oi_limit_price intent = 37 / 100"
    using a by (simp add: g e mk mi sample_is_underdog sample_find_best_market)
  have 2: "evaluate_goal default_decision_engine ''intent-1'' sample_goal_event sample_match
        favourite_mapping = Inr None"
    using b by (simp add: g e fav)
  show ?thesis using 1 2 by blast
qed

subsection \<open>Closing a position\<close>

lemma sm_close_position_Some:
  assumes "map_of (sm_open_positions sm) pid = Some p"
  shows "fst (sm_close_position now pid exit_price oid sm)
           = Some (p\<lparr>pos_status := CLOSED, pos_current_price := exit_price,
                      pos_closed_at := Some now, pos_exit_order_id := Some oid,
                      pos_realized_pnl :=
                        (if pos_outcome p = ''yes'' then (exit_price - pos_entry_price p) * pos_size p
                         else (pos_entry_price p - exit_price) * pos_size p)\<rparr>)"
  using assms by (simp add: sm_close_position_def Let_def)

lemma sm_close_position_trades:
  "trades (snd (sm_close_position now pid exit_price oid sm)) = trades sm"
  by (simp add: sm_close_position_def Let_def split: option.splits)

lemma ts_close_position_filled:
  assumes gp: "get_position (p_state pl) pid = Some p"
    and ex: "fst (execute (env_exchange env) (env_order_id env) (env_now env) (env_now env)
                 (close_intent env p reason) (p_executor pl)) = (Some ord, msg)"
    and st: "o_status ord \<noteq> REJECTED"
    and cl: "fst (sm_close_position (env_now env) pid
                 (py_or_rat (o_avg_fill_price ord) (pos_current_price p)) (o_id ord)
                 (p_state pl)) = Some c"
  shows "fst (ts_close_position env pid reason pl) = Some c"
    and "trades (p_state (snd (ts_close_position env pid reason pl)))
           = update_open_trade (env_now env) (pos_match_id p)
               (py_or_rat (o_avg_fill_price ord) (pos_current_price p))
               (pos_realized_pnl c) (trades (p_state pl))"
proof -
  obtain ex' where e: "execute (env_exchange env) (env_order_id env) (env_now env) (env_now env)
                 (close_intent env p reason) (p_executor pl) = ((Some ord, msg), ex')"
    using ex by (metis prod.collapse)
  obtain sm' where s: "sm_close_position (env_now env) pid
                 (py_or_rat (o_avg_fill_price ord) (pos_current_price p)) (o_id ord)
                 (p_state pl) = (Some c, sm')"
    using cl by (metis prod.collapse)
  have t: "trades sm' = trades (p_state pl)"
    using sm_close_position_trades[of "env_now env" pid
        "py_or_rat (o_avg_fill_price ord) (pos_current_price p)" "o_id ord" "p_state pl"]
    by (simp add: s)
  show "fst (ts_close_position env pid reason pl) = Some c"
    using st by (simp add: ts_close_position_def gp e s Let_def)
  show "trades (p_state (snd (ts_close_position env pid reason pl)))
           = update_open_trade (env_now env) (pos_match_id p)
               (py_or_rat (o_avg_fill_price ord) (pos_current_price p))
               (pos_realized_pnl c) (trades (p_state pl))"
    using st by (simp add: ts_close_position_def gp e s Let_def t)
qed

lemma execute_filled:
  assumes "oi_exchange intent = ''kalshi''" and "oi_limit_price intent \<noteq> 0"
  shows "fst (execute (filling_exchange price) oid t0 t1 intent ex)
           = (Some ((new_order oid intent)
                      \<lparr>o_exchange_order_id := Some ''K-1'', o_status := FILLED,
                       o_submitted_at := Some t1, o_filled_at := Some t1,
                       o_filled_size := Some (oi_size intent),
                       o_avg_fill_price := Some price\<rparr>),
              OrderSubmitted (of_int (t1 - t0) / 1000))"
  using assms
  by (simp add: execute_eq execute_body_def execute_kalshi_def filling_exchange_def Let_def)

text \<open>
  Claim C1 at its own example. A position with outcome yes, entered at 0.30 with size 50,
  is closed at 0.40: the ledger realizes (0.40 - 0.30) * 50 = 5 and copies it into the
  trade's \<open>pnl\<close>, next to a \<open>pnl_pct\<close> of 33.3; \<open>calculate_pnl\<close> gives 16.67 for
  the same figures.
\<close>

theorem close_position_realized_pnl:
  "map_option pos_realized_pnl
     (fst (sm_close_position 1 ''pos-2'' (40 / 100) ''exit-order'' state_with_position)) = Some 5
   \<and> map_option pos_realized_pnl
       (fst (ts_close_position closing_env ''pos-2'' ''manual'' pipeline_with_position)) = Some 5
   \<and> map tr_pnl (trades (p_state
         (snd (ts_close_position closing_env ''pos-2'' ''manual'' pipeline_with_position)))) = [5]
   \<and> map tr_pnl_pct (trades (p_state
         (snd (ts_close_position closing_env ''pos-2'' ''manual'' pipeline_with_position))))
       = [100 / 3]
   \<and> calculate_pnl (30 / 100) (40 / 100) 50 ''yes'' = (50 / 3, 100 / 3)"
proof -
  let ?c = "sample_position\<lparr>pos_status := CLOSED, pos_current_price := 40 / 100,
      pos_closed_at := Some 1, pos_exit_order_id := Some ''exit-order'',
      pos_realized_pnl := 5\<rparr>"
  have m: "map_of (sm_open_positions state_with_position) ''pos-2'' = Some sample_position"
    by (simp add: state_with_position_def empty_state_def)
  have c: "fst (sm_close_position 1 ''pos-2'' (40 / 100) ''exit-order'' state_with_position)
      = Some ?c"
    unfolding sm_close_position_Some[OF m] by (simp add: sample_position_def)
  have gp: "get_position (p_state pipeline_with_position) ''pos-2'' = Some sample_position"
    by (simp add: get_position_def pipeline_with_position_def m)
  have i: "oi_exchange (close_intent closing_env sample_position ''manual'') = ''kalshi''"
    "oi_limit_price (close_intent closing_env sample_position ''manual'') \<noteq> 0"
    by (simp_all add: close_intent_def sample_position_def)
  note ex = execute_filled[OF i, of "40 / 100" "''exit-order''" 1 1 empty_executor]
  define ord where "ord = (new_order ''exit-order'' (close_intent closing_env sample_position ''manual''))
                      \<lparr>o_exchange_order_id := Some ''K-1'', o_status := FILLED,
                       o_submitted_at := Some 1, o_filled_at := Some 1,
                       o_filled_size := Some (oi_size (close_intent closing_env sample_position ''manual'')),
                       o_avg_fill_price := Some (40 / 100)\<rparr>"
  have o: "o_status ord \<noteq> REJECTED" "o_id ord = ''exit-order''"
    "py_or_rat (o_avg_fill_price ord) (pos_current_price sample_position) = 40 / 100"
    by (simp_all add: ord_def new_order_def py_or_rat_def)
  have e: "env_exchange closing_env = filling_exchange (40 / 100)"
    "env_order_id closing_env = ''exit-order''" "env_now closing_env = 1"
    by (simp_all add: closing_env_def)
  have ps: "p_state pipeline_with_position = state_with_position"
    "p_executor pipeline_with_position = empty_executor"
    by (simp_all add: pipeline_with_position_def)
  have ex': "fst (execute (env_exchange closing_env) (env_order_id closing_env) (env_now closing_env)
        (env_now closing_env) (close_intent closing_env sample_position ''manual'')
        (p_executor pipeline_with_position)) = (Some ord, OrderSubmitted (of_int (1 - 1) / 1000))"
    unfolding e ps ord_def using ex by simp
  have cl: "fst (sm_close_position (env_now closing_env) ''pos-2''
      (py_or_rat (o_avg_fill_price ord) (pos_current_price sample_position)) (o_id ord)
      (p_state pipeline_with_position)) = Some ?c"
    unfolding e o ps by (rule c)
  note r = ts_close_position_filled[OF gp ex' o(1) cl]
  have t: "update_open_trade now 12345 x y [sample_trade]
      = [finalize_trade now x y sample_trade]" for now x y
    by (simp add: update_open_trade_def last_n_def sample_trade_def)
  have tr: "trades (p_state (snd (ts_close_position closing_env ''pos-2'' ''manual'' pipeline_with_position)))
      = [finalize_trade 1 (40 / 100) 5 sample_trade]"
    unfolding r(2) e o ps
    by (simp add: t state_with_position_def empty_state_def sample_position_def)
  have f: "tr_pnl (finalize_trade 1 (40 / 100) 5 sample_trade) = 5"
    "tr_pnl_pct (finalize_trade 1 (40 / 100) 5 sample_trade) = 100 / 3"
    by (simp_all add: finalize_trade_def sample_trade_def)
  have cp: "calculate_pnl (30 / 100) (40 / 100) 50 ''yes'' = (50 / 3, 100 / 3)"
    by (simp add: calculate_pnl_def py_lower_def char_lower_def)
  show ?thesis
    unfolding c r(1) tr using f cp by simp
qed

subsection \<open>Sign convention and exit priority at concrete positions\<close>



theorem exit_reason_priority_witness:
  "check_take_profit default_post_trade_manager winning_position
   \<and> check_time_exit default_post_trade_manager hundred_minutes winning_position
   \<and> check_match_ended finished_state winning_position
   \<and> get_exit_reason default_post_trade_manager hundred_minutes finished_state winning_position
       = Some ''take_profit''
   \<and> check_stop_loss default_post_trade_manager losing_position
   \<and> get_exit_reason default_post_trade_manager hundred_minutes finished_state losing_position
       = Some ''stop_loss''
   \<and> get_exit_reason default_post_trade_manager hundred_minutes finished_state sample_position
       = Some ''time_exit''
   \<and> get_exit_reason default_post_trade_manager 1 finished_state sample_position
       = Some ''match_ended''
   \<and> get_exit_reason default_post_trade_manager 1 empty_state sample_position = None"
proof -
  have pnl: "snd (calculate_unrealized_pnl winning_position) = 20"
    "snd (calculate_unrealized_pnl losing_position) = - 50 / 3"
    "snd (calculate_unrealized_pnl sample_position) = 0"
    by (simp_all add: calculate_unrealized_pnl_def calculate_pnl_def winning_position_def
        losing_position_def sample_position_def py_lower_def char_lower_def)
  have tp: "check_take_profit default_post_trade_manager winning_position"
    "\<not> check_take_profit default_post_trade_manager losing_position"
    "\<not> check_take_profit default_post_trade_manager sample_position"
    by (simp_all add: check_take_profit_def pnl default_post_trade_manager_def)
  have sl: "check_stop_loss default_post_trade_manager losing_position"
    "\<not> check_stop_loss default_post_trade_manager sample_position"
    by (simp_all add: check_stop_loss_def pnl default_post_trade_manager_def)
  have te: "check_time_exit default_post_trade_manager hundred_minutes winning_position"
    "check_time_exit default_post_trade_manager hundred_minutes sample_position"
    "\<not> check_time_exit default_post_trade_manager 1 sample_position"
    by (simp_all add: check_time_exit_def minutes_between_def hundred_minutes_def
        winning_position_def sample_position_def default_post_trade_manager_def)
  have me: "check_match_ended finished_state winning_position"
    "check_match_ended finished_state sample_position"
    "\<not> check_match_ended empty_state sample_position"
    by (simp_all add: check_match_ended_def get_match_def finished_state_def empty_state_def
        winning_position_def sample_position_def sample_match_def)
  note a = exit_reason_priority[of default_post_trade_manager hundred_minutes finished_state
      winning_position, THEN conjunct2]
  note b = exit_reason_priority[of default_post_trade_manager hundred_minutes finished_state
      losing_position, THEN conjunct2]
  note c = exit_reason_priority[of default_post_trade_manager hundred_minutes finished_state
      sample_position, THEN conjunct2]
  note d = exit_reason_priority[of default_post_trade_manager 1 finished_state sample_position,
      THEN conjunct2]
  note e = exit_reason_priority[of default_post_trade_manager 1 empty_state sample_position,
      THEN conjunct2]
  have 1: "get_exit_reason default_post_trade_manager hundred_minutes finished_state
      winning_position = Some ''take_profit''"
    using a tp(1) by blast
  have 2: "get_exit_reason default_post_trade_manager hundred_minutes finished_state
      losing_position = Some ''stop_loss''"
    using b tp(2) sl(1) by blast
  have 3: "get_exit_reason default_post_trade_manager hundred_minutes finished_state
      sample_position = Some ''time_exit''"
    using c tp(3) sl(2) te(2) by blast
  have 4: "get_exit_reason default_post_trade_manager 1 finished_state sample_position
      = Some ''match_ended''"
    using d tp(3) sl(2) te(3) me(2) by blast
  have 5: "get_exit_reason default_post_trade_manager 1 empty_state sample_position = None"
    using e tp(3) sl(2) te(3) me(3) by blast
  show ?thesis
    using 1 2 3 4 5 tp(1) te(1) me(1) sl(1) by blast
qed

subsection \<open>Deduplication of goals\<close>

lemma record_fill_processed:
  "processed_goals (p_state (snd (record_fill env goal m ord a pl)))
     = processed_goals (p_state pl)"
  by (simp add: record_fill_def Let_def sm_add_position_def add_trade_def record_latency_def)

lemma execute_approved_processed:
  "processed_goals (p_state (snd (execute_approved env goal m a pl)))
     = processed_goals (p_state pl)"
  by (simp add: execute_approved_def case_prod_beta Let_def record_fill_processed
      split: option.splits)

lemma process_goal_processed:
  "processed_goals (p_state (snd (process_goal env goal m pl)))
     = processed_goals (p_state pl)"
proof (cases "get_mapping (p_state pl) (m_id m)")
  case (Some mp)
  then show ?thesis
    by (simp add: process_goal_def case_prod_beta Let_def execute_approved_processed
        split: option.splits sum.splits)
next
  case None
  show ?thesis
  proof (cases "env_create_mapping env m")
    case (Inl e)
    with None show ?thesis by (simp add: process_goal_def)
  next
    case (Inr mp)
    with None show ?thesis
      by (simp add: process_goal_def case_prod_beta Let_def execute_approved_processed
          set_mapping_def split: option.splits sum.splits)
  qed
qed

lemma listener_step_processed:
  assumes "is_goal_processed (p_state pl) (ge_id g)"
  shows "listener_step env g pl = pl"
  using assms by (simp add: listener_step_def)

lemma listener_step_marks:
  "listener_step env g pl = pl
   \<or> is_goal_processed (p_state (listener_step env g pl)) (ge_id g)"
proof (cases "is_goal_processed (p_state pl) (ge_id g)")
  case True
  then show ?thesis by (simp add: listener_step_def)
next
  case False
  show ?thesis
  proof (cases "get_match (p_state pl) (ge_match_id g)")
    case None
    with False show ?thesis by (simp add: listener_step_def)
  next
    case (Some m)
    with False have "listener_step env g pl
        = snd (process_goal env g m (pl\<lparr>p_state := mark_goal_processed g (p_state pl)\<rparr>))"
      by (simp add: listener_step_def)
    then show ?thesis
      by (simp add: is_goal_processed_def process_goal_processed mark_goal_processed_def)
  qed
qed

lemma listener_step_unknown_match:
  assumes "listener_step env g pl = pl" and "\<not> is_goal_processed (p_state pl) (ge_id g)"
  shows "listener_step env' g pl = pl"
proof (cases "get_match (p_state pl) (ge_match_id g)")
  case None
  with assms(2) show ?thesis by (simp add: listener_step_def)
next
  case (Some m)
  with assms(2) have "listener_step env g pl
        = snd (process_goal env g m (pl\<lparr>p_state := mark_goal_processed g (p_state pl)\<rparr>))"
    by (simp add: listener_step_def)
  then have "is_goal_processed (p_state (listener_step env g pl)) (ge_id g)"
    by (simp add: is_goal_processed_def process_goal_processed mark_goal_processed_def)
  with assms show ?thesis by simp
qed

lemma listener_step_twice:
  "listener_step env' g (listener_step env g pl) = listener_step env g pl"
proof (cases "is_goal_processed (p_state (listener_step env g pl)) (ge_id g)")
  case True
  then show ?thesis by (rule listener_step_processed)
next
  case False
  with listener_step_marks[of env g pl] have same: "listener_step env g pl = pl" by blast
  with False have "\<not> is_goal_processed (p_state pl) (ge_id g)" by simp
  from listener_step_unknown_match[OF same this, of env'] same show ?thesis by simp
qed

lemma listener_dispatch_processed:
  "(\<forall>ge \<in> set ges. is_goal_processed (p_state pl) (ge_id (fst ge)))
     \<Longrightarrow> listener_dispatch ges pl = pl"
  by (induction ges) (auto simp add: listener_step_processed)

text \<open>
  Claim C2, as amended. The goal listener checks the processed set before it calls the
  orchestrator: a goal whose id is already marked processed leaves the whole pipeline
  state, its orders and positions included, unchanged, and so does a list of such goals;
  and dispatching a goal a second time changes nothing that the first dispatch has left.
\<close>

theorem listener_skips_processed:
  "(is_goal_processed (p_state pl) (ge_id g) \<longrightarrow> listener_step env g pl = pl)
   \<and> ((\<forall>ge \<in> set ges. is_goal_processed (p_state pl) (ge_id (fst ge)))
        \<longrightarrow> listener_dispatch ges pl = pl)
   \<and> listener_step env' g (listener_step env g pl) = listener_step env g pl"
  using listener_step_processed[of pl g env] listener_dispatch_processed[of ges pl]
    listener_step_twice[of env' g env pl]
  by blast

lemma record_fill_fields:
  "p_executor (snd (record_fill env goal m ord a pl)) = p_executor pl"
  "sm_open_positions (p_state (snd (record_fill env goal m ord a pl)))
     = dict_set (env_position_id env) (open_position env m ord) (sm_open_positions (p_state pl))"
  by (simp_all add: record_fill_def Let_def sm_add_position_def add_trade_def
      record_latency_def open_position_def)

lemma process_goal_fills:
  assumes gm: "get_mapping (p_state pl) (m_id m) = Some mapping"
    and mk: "mm_markets mapping \<noteq> []"
    and ev: "evaluate_goal (p_engine pl) (env_intent_id env) goal m mapping = Inr (Some intent)"
    and ap: "approve_trade (env_today env) intent (p_risk pl) = ((Some a, rr), rm)"
    and en: "p_enabled pl"
    and ex: "execute (env_exchange env) (env_order_id env) (env_now env) (env_now env) a
               (p_executor pl) = ((Some ord, msg), ex')"
    and st: "o_status ord \<noteq> REJECTED" "o_status ord \<noteq> CANCELLED"
  shows "snd (process_goal env goal m pl)
           = snd (record_fill env goal m ord a (pl\<lparr>p_risk := rm, p_executor := ex'\<rparr>))"
  using mk en st
  by (simp add: process_goal_def gm ev ap execute_approved_def ex Let_def)

text \<open>
  The sample goal is already marked processed, the ledger holds its match and mapping, and
  nothing has been ordered yet. Handing the goal to \<open>process_goal\<close> again runs the whole
  pipeline: one order is completed and one position opened.
\<close>

theorem process_goal_counterexample:
  "is_goal_processed (p_state processed_pipeline) (ge_id sample_goal_event)
   \<and> completed_orders (p_executor processed_pipeline) = []
   \<and> sm_open_positions (p_state processed_pipeline) = []
   \<and> map o_id (completed_orders (p_executor
        (snd (process_goal goal_env sample_goal_event sample_match processed_pipeline))))
       = [''order-1'']
   \<and> map fst (sm_open_positions (p_state
        (snd (process_goal goal_env sample_goal_event sample_match processed_pipeline))))
       = [''pos-1'']"
proof -
  define intent where "intent =
     \<lparr>oi_id = ''intent-1'', oi_match_id = 12345, oi_market_id = mk_id sample_market,
      oi_exchange = ''kalshi'', oi_side = BUY, oi_outcome = ''yes'', oi_size = 0,
      oi_limit_price = 37 / 100,
      oi_reason = UnderdogScored ''Liverpool'' (Some (35 / 100))
         (snd (check_value default_decision_engine sample_market (Some (35 / 100))))
         (snd (check_liquidity default_decision_engine sample_market))
         (snd (check_time_remaining default_decision_engine sample_match sample_goal_event)),
      oi_goal_event_id = ''12345-away-1-30''\<rparr>"
  define a where "a = intent\<lparr>oi_size := 50\<rparr>"
  define ord where "ord = (new_order ''order-1'' a)
       \<lparr>o_exchange_order_id := Some ''K-1'', o_status := FILLED, o_submitted_at := Some 1,
        o_filled_at := Some 1, o_filled_size := Some (oi_size a),
        o_avg_fill_price := Some (37 / 100)\<rparr>"
  define ex' where "ex' = snd (execute (filling_exchange (37 / 100)) ''order-1'' 1 1 a empty_executor)"
  have pp: "p_engine processed_pipeline = default_decision_engine"
    "p_risk processed_pipeline = default_risk_manager 7"
    "p_executor processed_pipeline = empty_executor" "p_enabled processed_pipeline"
    by (simp_all add: processed_pipeline_def)
  have ge: "env_today goal_env = 7" "env_now goal_env = 1" "env_intent_id goal_env = ''intent-1''"
    "env_order_id goal_env = ''order-1''" "env_position_id goal_env = ''pos-1''"
    "env_exchange goal_env = filling_exchange (37 / 100)"
    by (simp_all add: goal_env_def)
  have g: "ge_scoring_team_id sample_goal_event = 2" "ge_id sample_goal_event = ''12345-away-1-30''"
    "ge_scoring_team_name sample_goal_event = ''Liverpool''"
    by (simp_all add: sample_goal_event_def)
  have mid: "m_id sample_match = 12345" by (simp add: sample_match_def)
  have gm: "get_mapping (p_state processed_pipeline) (m_id sample_match) = Some sample_mapping"
    by (simp add: get_mapping_def processed_pipeline_def empty_state_def mid)
  have mk: "mm_markets sample_mapping \<noteq> []" by (simp add: sample_mapping_def)
  have u: "fst (is_underdog default_decision_engine (ge_scoring_team_id sample_goal_event)
      sample_match sample_mapping)"
    by (simp add: g sample_is_underdog)
  have f: "find_best_market default_decision_engine (ge_scoring_team_id sample_goal_event)
      sample_match sample_mapping = Inr (Some sample_market)"
    by (simp add: g sample_find_best_market)
  have v: "fst (check_value default_decision_engine sample_market
      (snd (is_underdog default_decision_engine (ge_scoring_team_id sample_goal_event)
         sample_match sample_mapping)))"
    unfolding g sample_is_underdog
    by (simp add: check_value_def default_decision_engine_def sample_market_def Let_def)
  have l: "fst (check_liquidity default_decision_engine sample_market)"
    by (simp add: check_liquidity_def default_decision_engine_def sample_market_def Let_def)
  have t: "fst (check_time_remaining default_decision_engine sample_match sample_goal_event)"
    by (simp add: check_time_remaining_def default_decision_engine_def sample_goal_event_def
        py_or_int_def Let_def)
  have ev: "evaluate_goal (p_engine processed_pipeline) (env_intent_id goal_env)
      sample_goal_event sample_match sample_mapping = Inr (Some intent)"
    unfolding pp ge evaluate_goal_passes[OF u f v l t] intent_def
    by (simp add: g mid sample_is_underdog sample_market_def)
  have rd: "reset_daily_if_needed 7 (default_risk_manager 7) = default_risk_manager 7"
    by (simp add: reset_daily_if_needed_def default_risk_manager_def)
  have cs: "clamped_size intent (default_risk_manager 7) = 50"
    by (simp add: clamped_size_def default_risk_manager_def dict_get_def)
  have rmf: "\<not> circuit_breaker_active (default_risk_manager 7)"
    "\<not> daily_pnl (default_risk_manager 7) \<le> - daily_loss_limit (default_risk_manager 7)"
    "\<not> per_match_max_exposure (default_risk_manager 7)
        \<le> dict_get (match_exposure (default_risk_manager 7)) (oi_match_id intent) 0"
    by (simp_all add: default_risk_manager_def dict_get_def)
  have ap: "approve_trade (env_today goal_env) intent (p_risk processed_pipeline)
      = ((Some a, ApprovedWithSize 50), default_risk_manager 7)"
    unfolding pp ge approve_trade_eq Let_def rd a_def
    by (simp add: rmf cs py_round2_50)
  have i: "oi_exchange a = ''kalshi''" "oi_limit_price a \<noteq> 0"
    by (simp_all add: a_def intent_def)
  have ex1: "fst (execute (filling_exchange (37 / 100)) ''order-1'' 1 1 a empty_executor)
      = (Some ord, OrderSubmitted (of_int (1 - 1) / 1000))"
    unfolding ord_def by (rule execute_filled[OF i])
  have ex: "execute (env_exchange goal_env) (env_order_id goal_env) (env_now goal_env)
      (env_now goal_env) a (p_executor processed_pipeline)
      = ((Some ord, OrderSubmitted (of_int (1 - 1) / 1000)), ex')"
    unfolding pp ge ex'_def using ex1 by (simp add: prod_eq_iff)
  have st: "o_status ord \<noteq> REJECTED" "o_status ord \<noteq> CANCELLED"
    by (simp_all add: ord_def)
  note r = process_goal_fills[OF gm mk ev ap pp(4) ex st]
  have co: "map o_id (completed_orders ex') = [''order-1'']"
    unfolding ex'_def
    by (simp add: execute_eq empty_executor_def execute_body_order_id new_order_def)
  have 1: "map o_id (completed_orders (p_executor
        (snd (process_goal goal_env sample_goal_event sample_match processed_pipeline))))
       = [''order-1'']"
    unfolding r record_fill_fields by (simp add: co)
  have 2: "map fst (sm_open_positions (p_state
        (snd (process_goal goal_env sample_goal_event sample_match processed_pipeline))))
       = [''pos-1'']"
    unfolding r record_fill_fields ge
    by (simp add: processed_pipeline_def empty_state_def)
  have 0: "is_goal_processed (p_state processed_pipeline) (ge_id sample_goal_event)"
    "completed_orders (p_executor processed_pipeline) = []"
    "sm_open_positions (p_state processed_pipeline) = []"
    by (simp_all add: is_goal_processed_def processed_pipeline_def empty_state_def g
        empty_executor_def)
  show ?thesis using 0 1 2 by simp
qed

theorem listener_skips_processed_witness:
  "is_goal_processed (p_state processed_pipeline) (ge_id sample_goal_event)
   \<and> listener_step goal_env sample_goal_event processed_pipeline = processed_pipeline
   \<and> listener_dispatch [(sample_goal_event, goal_env), (sample_goal_event, closing_env)]
        processed_pipeline = processed_pipeline"
proof -
  have p: "is_goal_processed (p_state processed_pipeline) (ge_id sample_goal_event)"
    by (simp add: is_goal_processed_def processed_pipeline_def empty_state_def
        sample_goal_event_def)
  then have q: "\<forall>ge \<in> set [(sample_goal_event, goal_env), (sample_goal_event, closing_env)].
      is_goal_processed (p_state processed_pipeline) (ge_id (fst ge))"
    by simp
  note t = listener_skips_processed[where pl = processed_pipeline and g = sample_goal_event
      and env = goal_env
      and ges = "[(sample_goal_event, goal_env), (sample_goal_event, closing_env)]"]
  from t p q show ?thesis by blast
qed

subsection \<open>Sign convention, component by component\<close>























end
